theory Spec2Isabelle
  imports Main
begin

chapter \<open>The contract client: assembled and sent transactions\<close>

text \<open>
  A model of \<open>AssembledTransaction\<close> (\<open>assembled_transaction.ts\<close>), of \<open>SentTransaction\<close>
  (\<open>contract/sent_transaction.ts\<close>) and of the two \<open>ContractClient\<close> constructors
  (\<open>contract/client.ts\<close> and \<open>contract_client/client.ts\<close>). Objects are records, a
  method takes \<open>this\<close> and returns it as it has become, a \<open>throw\<close> or a rejected
  promise is the left summand of the result. \<open>await\<close> is sequencing: the methods of one
  object are not run concurrently. The clock is an argument where the code reads it.
\<close>

section \<open>Thrown values\<close>

text \<open>
  Every \<open>throw\<close> of the source is a value of type \<open>thrown\<close>. The classes are the
  members of \<open>AssembledTransaction.Errors\<close> and \<open>SentTransaction.Errors\<close>, plus the
  built-in \<open>Error\<close> and \<open>TypeError\<close>. A callback may throw anything: an object with
  its own \<open>toString\<close>, or a value that is no object at all.
\<close>

datatype ErrorClass =
    ErrorC
  | TypeErrorC
  | ExpiredStateError
  | NeedsMoreSignaturesError
  | NoSignatureNeededError
  | NoUnsignedNonInvokerAuthEntriesError
  | NoSignerError
  | NotYetSimulatedError
  | FakeAccountError
  | SendFailedError
  | SendResultOnlyError
  | TransactionStillPendingError

datatype thrown =
    JsError ErrorClass string
  | ThrownObject string
  | ThrownPrimitive

text \<open>
  \<open>class XError extends Error { }\<close> inherits \<open>name = "Error"\<close> from the prototype, so
  only \<open>TypeError\<close> prints another name. \<open>Error.prototype.toString\<close> gives the name
  alone when the message is empty.
\<close>

fun className :: "ErrorClass \<Rightarrow> string" where
  "className TypeErrorC = ''TypeError''"
| "className _ = ''Error''"

fun toString :: "thrown \<Rightarrow> string" where
  "toString (JsError c m) = (if m = [] then className c else className c @ '': '' @ m)"
| "toString (ThrownObject s) = s"
| "toString ThrownPrimitive = []"

text \<open>
  Modelled from the spec: \<open>implementsToString\<close> of \<open>utils\<close>, the guard of \<open>result\<close>
  that lets only objects carrying a \<open>toString\<close> reach the contract-error pattern.
\<close>

fun implementsToString :: "thrown \<Rightarrow> bool" where
  "implementsToString (JsError _ _) = True"
| "implementsToString (ThrownObject _) = True"
| "implementsToString ThrownPrimitive = False"

section \<open>The data of the transaction library\<close>

type_synonym XDR_BASE64 = string

text \<open>The code asks of a wire value only whether its arm is \<open>scvVoid\<close>.\<close>

datatype ScVal = ScvVoid | ScvOther string

datatype ScAddress = ScAddressTypeAccount string | ScAddressTypeContract string

record SorobanAddressCredentials =
  address :: ScAddress
  nonce :: int
  signatureExpirationLedger :: nat
  signature :: ScVal

datatype SorobanCredentials =
    SorobanCredentialsSourceAccount
  | SorobanCredentialsAddress SorobanAddressCredentials

record SorobanAuthorizationEntry =
  credentials :: SorobanCredentials
  rootInvocation :: string

record LedgerFootprint =
  readOnly :: "string list"
  readWrite :: "string list"

record SorobanResources =
  footprint :: LedgerFootprint
  instructions :: nat

record SorobanTransactionData =
  resources :: SorobanResources
  resourceFee :: int

datatype Operation =
    InvokeHostFunction string "SorobanAuthorizationEntry list option"
  | OtherOperation string

text \<open>\<open>op.auth\<close>: \<open>undefined\<close> on an operation that has no such member.\<close>

fun operation_auth :: "Operation \<Rightarrow> SorobanAuthorizationEntry list option" where
  "operation_auth (InvokeHostFunction f a) = a"
| "operation_auth (OtherOperation x) = None"

record TimeBounds =
  minTime :: nat
  maxTime :: nat

record Transaction =
  source :: string
  sequence :: int
  fee :: string
  timeBounds :: "TimeBounds option"
  operations :: "Operation list"
  sorobanData :: "SorobanTransactionData option"

text \<open>
  \<open>TransactionBuilder.fromXDR\<close> returns a \<open>Transaction\<close> or a \<open>FeeBumpTransaction\<close>;
  the latter has no \<open>operations\<close> member. It is kept as its JSON rendering.
\<close>

datatype Tx = TransactionTx Transaction | FeeBumpTransaction string

record SimulateHostFunctionResult =
  auth :: "SorobanAuthorizationEntry list"
  retval :: ScVal

text \<open>
  Modelled from the spec: \<open>Api.SimulateTransactionResponse\<close> of \<open>rpc/api\<close>, "tagged:
  success / error / restore-required", with the guards \<open>isSimulationError\<close>,
  \<open>isSimulationRestore\<close> and \<open>isSimulationSuccess\<close> as the three cases. The strings of
  the last two are the response's \<open>JSON.stringify\<close> rendering, which the error messages
  of \<open>simulationData\<close> embed; the transaction data is what
  \<open>simulation.transactionData.build()\<close> gives.
\<close>

datatype SimulateTransactionResponse =
    SimulationError string
  | SimulationRestore string
  | SimulationSuccess "SimulateHostFunctionResult option" SorobanTransactionData string

section \<open>The RPC server\<close>

text \<open>
  Modelled from the spec: the RPC adapter, as far as \<open>send\<close> calls it,
  "\<open>sendTransaction(signedTx) \<rightarrow> {status, hash, errorResultXdr?}\<close>" and
  "\<open>getTransaction(hash) \<rightarrow> {status \<in> {NOT_FOUND, SUCCESS, FAILED}, returnValue?}\<close>". A
  call can reject. What \<open>getTransaction\<close> answers depends on when it is asked: its second
  argument is the clock, in seconds. \<open>latestLedger\<close> stands for what else the answer
  carries.
\<close>

datatype GetTransactionStatus = SUCCESS | NOT_FOUND | FAILED

record SendTransactionResponse =
  send_status :: string
  hash :: string

record GetTransactionResponse =
  status :: GetTransactionStatus
  returnValue :: "ScVal option"
  latestLedger :: nat

record Server =
  sendTransaction :: "Tx \<Rightarrow> thrown + SendTransactionResponse"
  getTransaction :: "string \<Rightarrow> nat \<Rightarrow> thrown + GetTransactionResponse"

section \<open>What the modelled files import\<close>

text \<open>
  The XDR codecs, \<open>StrKey\<close> and \<open>authorizeEntry\<close> belong to the external transaction
  library, \<open>DEFAULT_TIMEOUT\<close> to \<open>utils\<close> and the constructor of \<open>Server\<close> to
  \<open>rpc/server\<close>; none is under the sources, so each is a parameter. Decoding can throw.
  \<open>TransactionBuilder.fromXDR\<close> also takes the network passphrase; \<open>authorizeEntry\<close>
  takes the entry, the signing callback, the expiration ledger and the passphrase.
  \<open>new_Server\<close> is \<open>new Server(rpcUrl, {allowHttp})\<close>, which can refuse its arguments.
  \<open>integerToNumber\<close> is the Number value of a whole number from \<open>2^53\<close> on, where a
  double no longer holds every integer: the double that stands for it, or \<open>None\<close> when
  that is \<open>Infinity\<close>.
\<close>

record Deps =
  encodeEd25519PublicKey :: "string \<Rightarrow> string"
  DEFAULT_TIMEOUT :: nat
  Tx_toXDR :: "Tx \<Rightarrow> XDR_BASE64"
  TransactionBuilder_fromXDR :: "XDR_BASE64 \<Rightarrow> string \<Rightarrow> thrown + Tx"
  SorobanAuthorizationEntry_toXDR :: "SorobanAuthorizationEntry \<Rightarrow> XDR_BASE64"
  SorobanAuthorizationEntry_fromXDR :: "XDR_BASE64 \<Rightarrow> thrown + SorobanAuthorizationEntry"
  ScVal_toXDR :: "ScVal \<Rightarrow> XDR_BASE64"
  ScVal_fromXDR :: "XDR_BASE64 \<Rightarrow> thrown + ScVal"
  SorobanTransactionData_toXDR :: "SorobanTransactionData \<Rightarrow> XDR_BASE64"
  SorobanTransactionData_fromXDR :: "XDR_BASE64 \<Rightarrow> thrown + SorobanTransactionData"
  authorizeEntry ::
    "SorobanAuthorizationEntry \<Rightarrow> (XDR_BASE64 \<Rightarrow> thrown + string) \<Rightarrow> nat \<Rightarrow> string \<Rightarrow>
     thrown + SorobanAuthorizationEntry"
  new_Server :: "string \<Rightarrow> bool \<Rightarrow> thrown + Server"
  integerToNumber :: "nat \<Rightarrow> nat option"

section \<open>AssembledTransaction\<close>

text \<open>
  \<open>options.method\<close> is \<open>method_name\<close> here. \<open>timeoutInSeconds\<close> is a natural number
  of seconds; the contract-error codes that key \<open>errorTypes\<close> are naturals as well (they
  are the \<open>u32\<close> values of \<open>spec.errorCases()\<close>).
\<close>

record 'T AssembledTransactionOptions =
  method_name :: string
  args :: "ScVal list option"
  contractId :: string
  networkPassphrase :: string
  rpcUrl :: string
  allowHttp :: "bool option"
  publicKey :: "string option"
  signTransaction :: "(XDR_BASE64 \<Rightarrow> string \<Rightarrow> thrown + XDR_BASE64) option"
  signAuthEntry :: "(XDR_BASE64 \<Rightarrow> thrown + string) option"
  errorTypes :: "(nat \<Rightarrow> string option) option"
  opt_fee :: "string option"
  timeoutInSeconds :: "nat option"
  simulate :: "bool option"
  parseResultXdr :: "ScVal \<Rightarrow> thrown + 'T"

record 'T AssembledTransaction =
  options :: "'T AssembledTransactionOptions"
  server :: Server
  built :: "Tx option"
  simulation :: "SimulateTransactionResponse option"
  simulationResult :: "SimulateHostFunctionResult option"
  simulationTransactionData :: "SorobanTransactionData option"
  signed :: "Tx option"

record SimulationData =
  result :: SimulateHostFunctionResult
  transactionData :: SorobanTransactionData

text \<open>
  A method or getter that can throw after it has written to \<open>this\<close> returns its outcome
  together with the object as it then is.
\<close>

text \<open>
  \<open>get simulationData\<close>: the cache when both of its halves are there, otherwise the live
  response, which is written through to the cache on success.
\<close>

definition simulationData ::
  "'T AssembledTransaction \<Rightarrow> (thrown + SimulationData) \<times> 'T AssembledTransaction" where
  "simulationData this =
    (case (simulationResult this, simulationTransactionData this) of
      (Some r, Some d) \<Rightarrow> (Inr \<lparr>result = r, transactionData = d\<rparr>, this)
    | _ \<Rightarrow>
      (case simulation this of
        None \<Rightarrow>
          (Inl (JsError NotYetSimulatedError ''Transaction has not yet been simulated''), this)
      | Some (SimulationError e) \<Rightarrow>
          (Inl (JsError ErrorC (''Transaction simulation failed: \"'' @ e @ ''\"'')), this)
      | Some (SimulationRestore json) \<Rightarrow>
          (Inl (JsError ExpiredStateError
             (''You need to restore some contract state before you can invoke this method. ''
              @ json)), this)
      | Some (SimulationSuccess None td json) \<Rightarrow>
          (Inl (JsError ErrorC
             (''Expected an invocation simulation, but got no 'result' field. Simulation: ''
              @ json)), this)
      | Some (SimulationSuccess (Some r) td json) \<Rightarrow>
          (Inr \<lparr>result = r, transactionData = td\<rparr>,
           this\<lparr>simulationResult := Some r, simulationTransactionData := Some td\<rparr>)))"

text \<open>
  The parsed JSON form. \<open>JSON.stringify\<close> leaves out a key whose value is \<open>undefined\<close>,
  so \<open>tx\<close> is optional.
\<close>

record SimulationResultJSON =
  json_auth :: "XDR_BASE64 list"
  json_retval :: XDR_BASE64

record AssembledTransactionJSON =
  json_method :: string
  json_tx :: "XDR_BASE64 option"
  json_simulationResult :: SimulationResultJSON
  json_simulationTransactionData :: XDR_BASE64

text \<open>\<open>toJSON\<close> reads the getter three times, in the order of the object literal.\<close>

definition toJSON ::
  "Deps \<Rightarrow> 'T AssembledTransaction \<Rightarrow>
   (thrown + AssembledTransactionJSON) \<times> 'T AssembledTransaction" where
  "toJSON deps this =
    (let m = method_name (options this);
         t = map_option (Tx_toXDR deps) (built this)
     in case simulationData this of
          (Inl e, this1) \<Rightarrow> (Inl e, this1)
        | (Inr d1, this1) \<Rightarrow>
          (let a = map (SorobanAuthorizationEntry_toXDR deps) (auth (result d1))
           in case simulationData this1 of
                (Inl e, this2) \<Rightarrow> (Inl e, this2)
              | (Inr d2, this2) \<Rightarrow>
                (let r = ScVal_toXDR deps (retval (result d2))
                 in case simulationData this2 of
                      (Inl e, this3) \<Rightarrow> (Inl e, this3)
                    | (Inr d3, this3) \<Rightarrow>
                        (Inr \<lparr>json_method = m, json_tx = t,
                              json_simulationResult = \<lparr>json_auth = a, json_retval = r\<rparr>,
                              json_simulationTransactionData =
                                SorobanTransactionData_toXDR deps (transactionData d3)\<rparr>,
                         this3))))"

text \<open>\<open>Array.prototype.map\<close> with a callback that can throw: the first throw ends it.\<close>

fun map_throwing :: "('a \<Rightarrow> thrown + 'b) \<Rightarrow> 'a list \<Rightarrow> thrown + 'b list" where
  "map_throwing f [] = Inr []"
| "map_throwing f (x # xs) =
    (case f x of
      Inl e \<Rightarrow> Inl e
    | Inr y \<Rightarrow> (case map_throwing f xs of Inl e \<Rightarrow> Inl e | Inr ys \<Rightarrow> Inr (y # ys)))"

text \<open>
  The private constructor: \<open>options.simulate = options.simulate ?? true\<close>, then
  \<open>this.server = new Server(options.rpcUrl, {allowHttp: options.allowHttp ?? false})\<close>.
  When \<open>new Server\<close> throws there is no object.
\<close>

definition new_AssembledTransaction ::
  "Deps \<Rightarrow> 'T AssembledTransactionOptions \<Rightarrow> thrown + 'T AssembledTransaction" where
  "new_AssembledTransaction deps opts =
    (case new_Server deps (rpcUrl opts) (case allowHttp opts of None \<Rightarrow> False | Some b \<Rightarrow> b) of
      Inl e \<Rightarrow> Inl e
    | Inr srv \<Rightarrow>
        Inr \<lparr>options = opts\<lparr>simulate := Some (case simulate opts of None \<Rightarrow> True | Some b \<Rightarrow> b)\<rparr>,
             server = srv,
             built = None, simulation = None, simulationResult = None,
             simulationTransactionData = None, signed = None\<rparr>)"

text \<open>
  \<open>fromJSON\<close>. With no \<open>tx\<close> key, \<open>TransactionBuilder.fromXDR(undefined, ...)\<close> is given
  no envelope to decode and throws; the message of that \<open>TypeError\<close> is the library's
  and stands here as a placeholder.
\<close>

definition fromJSON ::
  "Deps \<Rightarrow> 'T AssembledTransactionOptions \<Rightarrow> AssembledTransactionJSON \<Rightarrow>
   thrown + 'T AssembledTransaction" where
  "fromJSON deps opts json =
    (case new_AssembledTransaction deps opts of
      Inl e \<Rightarrow> Inl e
    | Inr txn \<Rightarrow>
      (case (case json_tx json of
               None \<Rightarrow> Inl (JsError TypeErrorC ''fromXDR: no envelope'')
             | Some t \<Rightarrow> TransactionBuilder_fromXDR deps t (networkPassphrase opts)) of
        Inl e \<Rightarrow> Inl e
      | Inr b \<Rightarrow>
        (case map_throwing (SorobanAuthorizationEntry_fromXDR deps)
                (json_auth (json_simulationResult json)) of
          Inl e \<Rightarrow> Inl e
        | Inr a \<Rightarrow>
          (case ScVal_fromXDR deps (json_retval (json_simulationResult json)) of
            Inl e \<Rightarrow> Inl e
          | Inr r \<Rightarrow>
            (case SorobanTransactionData_fromXDR deps (json_simulationTransactionData json) of
              Inl e \<Rightarrow> Inl e
            | Inr d \<Rightarrow>
                Inr (txn\<lparr>built := Some b,
                         simulationResult := Some \<lparr>auth = a, retval = r\<rparr>,
                         simulationTransactionData := Some d\<rparr>))))))"

subsection \<open>result and the contract-error pattern\<close>

text \<open>
  Modelled from the spec: the regex constant \<open>contractErrorPattern\<close> of \<open>utils\<close>,
  \<open>/Error\(Contract, #(\d+)\)/\<close>. \<open>contractErrorPattern_at\<close> matches it at the head of
  the string and gives the captured digits: \<open>\d+\<close> is greedy and a digit cannot stand
  for the closing parenthesis, so the capture is the whole run of digits.
  \<open>String.prototype.match\<close> takes the leftmost position at which the pattern matches.
\<close>

definition isDigit :: "char \<Rightarrow> bool" where
  "isDigit c = (c \<in> set ''0123456789'')"

definition contractErrorPattern_at :: "string \<Rightarrow> string option" where
  "contractErrorPattern_at s =
    (if take 17 s = ''Error(Contract, #'' then
       (let ds = takeWhile isDigit (drop 17 s)
        in if ds \<noteq> [] \<and> take 1 (dropWhile isDigit (drop 17 s)) = '')'' then Some ds else None)
     else None)"

fun contractErrorPattern_match :: "string \<Rightarrow> string option" where
  "contractErrorPattern_match [] = None"
| "contractErrorPattern_match (c # cs) =
    (case contractErrorPattern_at (c # cs) of
      Some ds \<Rightarrow> Some ds
    | None \<Rightarrow> contractErrorPattern_match cs)"

text \<open>
  \<open>parseInt(s, 10)\<close> on a string that starts with digits (the capture has nothing
  else): the Number value of the leading digits; \<open>NaN\<close>, here \<open>None\<close>, when there are
  none. Below \<open>2^53\<close> the Number is the whole number itself; from there on it is the
  double that \<open>integerToNumber\<close> gives. A Number is the natural it stands for, and
  \<open>None\<close> is \<open>NaN\<close> or \<open>Infinity\<close>, neither of which keys an error type.
\<close>

definition digitValue :: "char \<Rightarrow> nat" where
  "digitValue c = of_char c - 48"

definition parseInt :: "Deps \<Rightarrow> string \<Rightarrow> nat option" where
  "parseInt deps s =
    (let ds = takeWhile isDigit s
     in if ds = [] then None
        else (let n = foldl (\<lambda>n c. 10 * n + digitValue c) 0 ds
              in if n < 2 ^ 53 then Some n else integerToNumber deps n))"

text \<open>
  What \<open>result\<close> returns: the parsed value, or the \<open>Err\<close> of \<open>rust_result\<close> around the
  registered \<open>{message}\<close>.
\<close>

datatype 'T ResultValue = Parsed 'T | Err string

definition parseError ::
  "Deps \<Rightarrow> 'T AssembledTransaction \<Rightarrow> string \<Rightarrow> 'T ResultValue option" where
  "parseError deps this errorMessage =
    (case errorTypes (options this) of
      None \<Rightarrow> None
    | Some types \<Rightarrow>
      (case contractErrorPattern_match errorMessage of
        None \<Rightarrow> None
      | Some m1 \<Rightarrow>
        (case parseInt deps m1 of
          None \<Rightarrow> None
        | Some i \<Rightarrow> (case types i of None \<Rightarrow> None | Some err \<Rightarrow> Some (Err err)))))"

text \<open>The \<open>catch\<close> block of \<open>result\<close>.\<close>

definition result_catch ::
  "Deps \<Rightarrow> 'T AssembledTransaction \<Rightarrow> thrown \<Rightarrow>
   (thrown + 'T ResultValue) \<times> 'T AssembledTransaction" where
  "result_catch deps this e =
    (if \<not> implementsToString e then (Inl e, this)
     else (case parseError deps this (toString e) of
             Some err \<Rightarrow> (Inr err, this)
           | None \<Rightarrow> (Inl e, this)))"

text \<open>\<open>get result\<close>: the getter and the parser both run inside the \<open>try\<close>.\<close>

definition AssembledTransaction_result ::
  "Deps \<Rightarrow> 'T AssembledTransaction \<Rightarrow> (thrown + 'T ResultValue) \<times> 'T AssembledTransaction" where
  "AssembledTransaction_result deps this =
    (case simulationData this of
      (Inl e, this1) \<Rightarrow> result_catch deps this1 e
    | (Inr d, this1) \<Rightarrow>
      (case parseResultXdr (options this1) (retval (result d)) of
        Inl e \<Rightarrow> result_catch deps this1 e
      | Inr v \<Rightarrow> (Inr (Parsed v), this1)))"

subsection \<open>needsNonInvokerSigningBy\<close>

text \<open>\<open>[...new Set(xs)]\<close>: the elements in the order of their first insertion.\<close>

definition Set_in_insertion_order :: "'a list \<Rightarrow> 'a list" where
  "Set_in_insertion_order xs =
    foldl (\<lambda>seen x. if x \<in> set seen then seen else seen @ [x]) [] xs"

text \<open>The \<open>filter\<close> callback.\<close>

definition isUnsignedAddressEntry :: "bool \<Rightarrow> SorobanAuthorizationEntry \<Rightarrow> bool" where
  "isUnsignedAddressEntry includeAlreadySigned entry =
    (case credentials entry of
      SorobanCredentialsSourceAccount \<Rightarrow> False
    | SorobanCredentialsAddress c \<Rightarrow> includeAlreadySigned \<or> signature c = ScvVoid)"

text \<open>
  The \<open>map\<close> callback, \<open>StrKey.encodeEd25519PublicKey(entry.credentials().address()
  .address().accountId().ed25519())\<close>. An accessor of an XDR union throws a \<open>TypeError\<close>
  when another arm is set.
\<close>

definition entryPublicKey :: "Deps \<Rightarrow> SorobanAuthorizationEntry \<Rightarrow> thrown + string" where
  "entryPublicKey deps entry =
    (case credentials entry of
      SorobanCredentialsSourceAccount \<Rightarrow> Inl (JsError TypeErrorC ''address not set'')
    | SorobanCredentialsAddress c \<Rightarrow>
      (case address c of
        ScAddressTypeAccount k \<Rightarrow> Inr (encodeEd25519PublicKey deps k)
      | ScAddressTypeContract h \<Rightarrow> Inl (JsError TypeErrorC ''accountId not set'')))"

text \<open>
  \<open>this.built.operations[0]\<close> is \<open>undefined\<close> when there is no operation, and reading
  \<open>.auth\<close> of it is a \<open>TypeError\<close>.
\<close>

definition needsNonInvokerSigningBy ::
  "Deps \<Rightarrow> bool \<Rightarrow> 'T AssembledTransaction \<Rightarrow> thrown + string list" where
  "needsNonInvokerSigningBy deps includeAlreadySigned this =
    (case built this of
      None \<Rightarrow> Inl (JsError ErrorC ''Transaction has not yet been simulated'')
    | Some (FeeBumpTransaction json) \<Rightarrow>
        Inl (JsError ErrorC (''Unexpected Transaction type; no operations: '' @ json))
    | Some (TransactionTx t) \<Rightarrow>
      (case operations t of
        [] \<Rightarrow> Inl (JsError TypeErrorC ''Cannot read properties of undefined (reading 'auth')'')
      | rawInvokeHostFunctionOp # _ \<Rightarrow>
        (case map_throwing (entryPublicKey deps)
                (filter (isUnsignedAddressEntry includeAlreadySigned)
                   (case operation_auth rawInvokeHostFunctionOp of None \<Rightarrow> [] | Some a \<Rightarrow> a)) of
          Inl e \<Rightarrow> Inl e
        | Inr keys \<Rightarrow> Inr (Set_in_insertion_order keys))))"

subsection \<open>isReadCall\<close>

definition isReadCall ::
  "'T AssembledTransaction \<Rightarrow> (thrown + bool) \<times> 'T AssembledTransaction" where
  "isReadCall this =
    (case simulationData this of
      (Inl e, this1) \<Rightarrow> (Inl e, this1)
    | (Inr d1, this1) \<Rightarrow>
      (let authsCount = length (auth (result d1))
       in case simulationData this1 of
            (Inl e, this2) \<Rightarrow> (Inl e, this2)
          | (Inr d2, this2) \<Rightarrow>
            (let writeLength = length (readWrite (footprint (resources (transactionData d2))))
             in (Inr (authsCount = 0 \<and> writeLength = 0), this2))))"

subsection \<open>The transaction builder\<close>

text \<open>
  Modelled from the spec: \<open>TransactionBuilder.cloneFrom\<close>, \<open>setTimeout\<close> and \<open>build\<close> of the
  external transaction library, as "clone \<open>built\<close> preserving fee and the post-simulation
  soroban data, clear timebounds, re-apply a fresh timeout of \<open>timeoutInSeconds\<close>,
  rebuild" describes them. \<open>cloneFrom\<close> copies the transaction into a builder and lets
  the given \<open>fee\<close>, \<open>timebounds\<close> and \<open>sorobanData\<close> override the copy; \<open>setTimeout\<close> reads
  the clock (\<open>now\<close>, in seconds) and sets the upper time bound to \<open>now\<close> plus the timeout;
  \<open>build\<close> turns the builder into a transaction. The spec does not single out a
  timeout of 0, and neither does the model.
\<close>

record TransactionBuilder =
  tb_source :: string
  tb_sequence :: int
  baseFee :: string
  timebounds :: "TimeBounds option"
  tb_operations :: "Operation list"
  tb_sorobanData :: "SorobanTransactionData option"

definition cloneFrom ::
  "Transaction \<Rightarrow> string \<Rightarrow> TimeBounds option \<Rightarrow> SorobanTransactionData \<Rightarrow> TransactionBuilder" where
  "cloneFrom t fee' timebounds' sorobanData' =
    \<lparr>tb_source = source t, tb_sequence = sequence t, baseFee = fee',
     timebounds = timebounds', tb_operations = operations t,
     tb_sorobanData = Some sorobanData'\<rparr>"

definition setTimeout :: "nat \<Rightarrow> nat \<Rightarrow> TransactionBuilder \<Rightarrow> TransactionBuilder" where
  "setTimeout now timeoutSeconds tb =
    tb\<lparr>timebounds := Some \<lparr>minTime = 0, maxTime = now + timeoutSeconds\<rparr>\<rparr>"

definition build :: "TransactionBuilder \<Rightarrow> Tx" where
  "build tb =
    TransactionTx \<lparr>source = tb_source tb, sequence = tb_sequence tb, fee = baseFee tb,
       timeBounds = timebounds tb, operations = tb_operations tb,
       sorobanData = tb_sorobanData tb\<rparr>"

text \<open>
  The refresh that \<open>sign\<close> and \<open>SentTransaction.send\<close> share:
  \<open>TransactionBuilder.cloneFrom(built, {fee: built.fee, timebounds: undefined,
  sorobanData}).setTimeout(timeoutInSeconds).build()\<close>. \<open>cloneFrom\<close> accepts a
  \<open>Transaction\<close> only.
\<close>

definition refreshed :: "nat \<Rightarrow> nat \<Rightarrow> Tx \<Rightarrow> SorobanTransactionData \<Rightarrow> thrown + Tx" where
  "refreshed now timeout b sorobanData' =
    (case b of
      FeeBumpTransaction json \<Rightarrow> Inl (JsError TypeErrorC ''expected a 'Transaction' '')
    | TransactionTx t \<Rightarrow> Inr (build (setTimeout now timeout (cloneFrom t (fee t) None sorobanData'))))"

text \<open>\<open>this.options.timeoutInSeconds ?? DEFAULT_TIMEOUT\<close>, as \<open>sign\<close> and \<open>send\<close> read it.\<close>

definition timeoutOf :: "Deps \<Rightarrow> 'T AssembledTransactionOptions \<Rightarrow> nat" where
  "timeoutOf deps opts =
    (case timeoutInSeconds opts of None \<Rightarrow> DEFAULT_TIMEOUT deps | Some s \<Rightarrow> s)"

subsection \<open>sign\<close>

text \<open>
  \<open>sign({force, signTransaction})\<close>; \<open>now\<close> is the clock when \<open>setTimeout\<close> runs. An
  argument left out takes its default: \<open>force = false\<close> and \<open>signTransaction =
  this.options.signTransaction\<close>. \<open>built\<close> is not written between the first guard and
  the refresh, so the value the guard has read is the one that is cloned.
\<close>

definition sign ::
  "Deps \<Rightarrow> nat \<Rightarrow> bool \<Rightarrow> (XDR_BASE64 \<Rightarrow> string \<Rightarrow> thrown + XDR_BASE64) option \<Rightarrow>
   'T AssembledTransaction \<Rightarrow> (thrown + unit) \<times> 'T AssembledTransaction" where
  "sign deps now force signTransaction_arg this =
    (let signTx = (case signTransaction_arg of
                     None \<Rightarrow> signTransaction (options this)
                   | Some f \<Rightarrow> Some f)
     in case built this of
          None \<Rightarrow> (Inl (JsError ErrorC ''Transaction has not yet been simulated''), this)
        | Some b \<Rightarrow>
          (case (if force then (Inr False, this) else isReadCall this) of
            (Inl e, this1) \<Rightarrow> (Inl e, this1)
          | (Inr True, this1) \<Rightarrow>
              (Inl (JsError NoSignatureNeededError
                 ''This is a read call. It requires no signature or sending. Use `force: true` to sign and send anyway.''),
               this1)
          | (Inr False, this1) \<Rightarrow>
            (case signTx of
              None \<Rightarrow>
                (Inl (JsError NoSignerError
                   ''You must provide a signTransaction function, either when calling `signAndSend` or when initializing your Client''),
                 this1)
            | Some f \<Rightarrow>
              (case needsNonInvokerSigningBy deps False this1 of
                Inl e \<Rightarrow> (Inl e, this1)
              | Inr needed \<Rightarrow>
                  if needed \<noteq> [] then
                    (Inl (JsError NeedsMoreSignaturesError
                       ''Transaction requires more signatures. See `needsNonInvokerSigningBy` for details.''),
                     this1)
                  else
                    (let timeout = timeoutOf deps (options this1)
                     in case simulationData this1 of
                          (Inl e, this2) \<Rightarrow> (Inl e, this2)
                        | (Inr d, this2) \<Rightarrow>
                          (case refreshed now timeout b (transactionData d) of
                            Inl e \<Rightarrow> (Inl e, this2)
                          | Inr b' \<Rightarrow>
                            (let this3 = this2\<lparr>built := Some b'\<rparr>
                             in case f (Tx_toXDR deps b') (networkPassphrase (options this3)) of
                                  Inl e \<Rightarrow> (Inl e, this3)
                                | Inr signature' \<Rightarrow>
                                  (case TransactionBuilder_fromXDR deps signature'
                                          (networkPassphrase (options this3)) of
                                    Inl e \<Rightarrow> (Inl e, this3)
                                  | Inr s \<Rightarrow> (Inr (), this3\<lparr>signed := Some s\<rparr>)))))))))"

subsection \<open>signAuthEntries\<close>

text \<open>
  The body of the \<open>for\<close> loop over \<open>authEntries.entries()\<close>, entry by entry. It writes
  \<open>authEntries[i]\<close> in place, so a throw leaves the entries signed so far in the list:
  the loop returns what was thrown, if anything, and the list as it then is.
  \<open>expiration\<close> is the awaited promise, which can reject. The list is the \<open>auth\<close> of
  the first operation of \<open>built\<close>; whether the simulation result shares that array is
  up to the transaction library, and nothing below depends on it.
\<close>

fun signAuthEntries_loop ::
  "Deps \<Rightarrow> (XDR_BASE64 \<Rightarrow> thrown + string) \<Rightarrow> thrown + nat \<Rightarrow> string option \<Rightarrow> string \<Rightarrow>
   SorobanAuthorizationEntry list \<Rightarrow> thrown option \<times> SorobanAuthorizationEntry list" where
  "signAuthEntries_loop deps signAuthEntry' expiration publicKey' passphrase [] = (None, [])"
| "signAuthEntries_loop deps signAuthEntry' expiration publicKey' passphrase (entry # rest) =
    (case credentials entry of
      SorobanCredentialsSourceAccount \<Rightarrow>
        (case signAuthEntries_loop deps signAuthEntry' expiration publicKey' passphrase rest of
          (r, rest') \<Rightarrow> (r, entry # rest'))
    | SorobanCredentialsAddress c \<Rightarrow>
      (case entryPublicKey deps entry of
        Inl e \<Rightarrow> (Some e, entry # rest)
      | Inr pk \<Rightarrow>
          if Some pk \<noteq> publicKey' then
            (case signAuthEntries_loop deps signAuthEntry' expiration publicKey' passphrase rest of
              (r, rest') \<Rightarrow> (r, entry # rest'))
          else
            (case expiration of
              Inl e \<Rightarrow> (Some e, entry # rest)
            | Inr ledger \<Rightarrow>
              (case authorizeEntry deps entry signAuthEntry' ledger passphrase of
                Inl e \<Rightarrow> (Some e, entry # rest)
              | Inr signedEntry \<Rightarrow>
                (case signAuthEntries_loop deps signAuthEntry' expiration publicKey' passphrase
                        rest of
                  (r, rest') \<Rightarrow> (r, signedEntry # rest'))))))"

text \<open>
  The truth value of an array in a condition: every object is truthy, the empty array
  included.
\<close>

definition array_is_truthy :: "'a list \<Rightarrow> bool" where
  "array_is_truthy xs = True"

text \<open>
  \<open>signAuthEntries({expiration, signAuthEntry, publicKey})\<close>. \<open>storageExpiration\<close> is what
  \<open>this.getStorageExpiration()\<close>, the default of \<open>expiration\<close>, resolves or rejects with;
  it is awaited inside the loop only.
\<close>

definition signAuthEntries ::
  "Deps \<Rightarrow> thrown + nat \<Rightarrow> nat option \<Rightarrow> (XDR_BASE64 \<Rightarrow> thrown + string) option \<Rightarrow> string option \<Rightarrow>
   'T AssembledTransaction \<Rightarrow> (thrown + unit) \<times> 'T AssembledTransaction" where
  "signAuthEntries deps storageExpiration expiration_arg signAuthEntry_arg publicKey_arg this =
    (let expiration = (case expiration_arg of None \<Rightarrow> storageExpiration | Some n \<Rightarrow> Inr n);
         signAuthEntry' = (case signAuthEntry_arg of
                             None \<Rightarrow> signAuthEntry (options this)
                           | Some f \<Rightarrow> Some f);
         publicKey' = (case publicKey_arg of None \<Rightarrow> publicKey (options this) | Some k \<Rightarrow> Some k)
     in case built this of
          None \<Rightarrow>
            (Inl (JsError ErrorC ''Transaction has not yet been assembled or simulated''), this)
        | Some b \<Rightarrow>
          (case needsNonInvokerSigningBy deps False this of
            Inl e \<Rightarrow> (Inl e, this)
          | Inr needed \<Rightarrow>
              if \<not> array_is_truthy needed then
                (Inl (JsError NoUnsignedNonInvokerAuthEntriesError
                   ''No unsigned non-invoker auth entries; maybe you already signed?''), this)
              else if (case publicKey' of None \<Rightarrow> [] | Some k \<Rightarrow> k) \<notin> set needed then
                (Inl (JsError NoSignatureNeededError
                   (''No auth entries for public key \"''
                    @ (case publicKey' of None \<Rightarrow> ''undefined'' | Some k \<Rightarrow> k) @ ''\"'')), this)
              else
                (case signAuthEntry' of
                  None \<Rightarrow>
                    (Inl (JsError NoSignerError
                       ''You must provide `signAuthEntry` when calling `signAuthEntries`, or when constructing the `Client` or `AssembledTransaction`''),
                     this)
                | Some f \<Rightarrow>
                  (case b of
                    FeeBumpTransaction json \<Rightarrow>
                      (Inl (JsError TypeErrorC
                         ''Cannot read properties of undefined (reading '0')''), this)
                  | TransactionTx t \<Rightarrow>
                    (case operations t of
                      [] \<Rightarrow>
                        (Inl (JsError TypeErrorC
                           ''Cannot read properties of undefined (reading 'auth')''), this)
                    | InvokeHostFunction func (Some authEntries) # ops \<Rightarrow>
                      (case signAuthEntries_loop deps f expiration publicKey'
                              (networkPassphrase (options this)) authEntries of
                        (r, authEntries') \<Rightarrow>
                          ((case r of None \<Rightarrow> Inr () | Some e \<Rightarrow> Inl e),
                           this\<lparr>built := Some (TransactionTx
                              (t\<lparr>operations := InvokeHostFunction func (Some authEntries') # ops\<rparr>))\<rparr>))
                    | _ # ops \<Rightarrow> (Inr (), this))))))"

section \<open>SentTransaction\<close>

text \<open>
  Modelled from the spec: \<open>withExponentialBackoff\<close> of \<open>utils\<close>, by the backoff schedule:
  "Let \<open>deadline = start + timeoutInSeconds\<close>. Attempt 0 immediately after submission.
  After attempt i, sleep \<open>min(2^i, remaining)\<close> seconds before attempt i+1. Stop when the
  predicate \<open>status \<noteq> NOT_FOUND\<close> or \<open>now \<ge> deadline\<close>. Attempts and their timestamps are
  all recorded." \<open>fn\<close> is given the clock at which it is called; a rejected attempt
  rejects the whole call. Time passes in the sleeps only.
\<close>

function withExponentialBackoff_loop ::
  "(nat \<Rightarrow> thrown + 'r) \<Rightarrow> ('r \<Rightarrow> bool) \<Rightarrow> nat \<Rightarrow> nat \<Rightarrow> nat \<Rightarrow> 'r list \<Rightarrow> 'r \<Rightarrow> thrown + 'r list" where
  "withExponentialBackoff_loop fn keepWaitingIf deadline i now attempts lastAttempt =
    (if keepWaitingIf lastAttempt \<and> now < deadline then
       (let now' = now + min (2 ^ i) (deadline - now)
        in case fn now' of
             Inl e \<Rightarrow> Inl e
           | Inr r \<Rightarrow>
               withExponentialBackoff_loop fn keepWaitingIf deadline (i + 1) now'
                 (attempts @ [r]) r)
     else Inr attempts)"
  by pat_completeness auto
termination
proof (relation "measure (\<lambda>(fn, keepWaitingIf, deadline, i, now, attempts, lastAttempt).
        deadline - now)", goal_cases)
  case 1
  show ?case by simp
next
  case (2 fn keepWaitingIf deadline i now attempts lastAttempt now' r)
  obtain k where "(2::nat) ^ i = Suc k"
    using not0_implies_Suc[of "(2::nat) ^ i"] by auto
  with 2 show ?case by (auto simp: min_def)
qed

definition withExponentialBackoff ::
  "(nat \<Rightarrow> thrown + 'r) \<Rightarrow> ('r \<Rightarrow> bool) \<Rightarrow> nat \<Rightarrow> nat \<Rightarrow> thrown + 'r list" where
  "withExponentialBackoff fn keepWaitingIf timeoutInSeconds' start =
    (case fn start of
      Inl e \<Rightarrow> Inl e
    | Inr r \<Rightarrow>
        withExponentialBackoff_loop fn keepWaitingIf (start + timeoutInSeconds') 0 start [r] r)"

text \<open>
  The fields of a \<open>SentTransaction\<close>; \<open>server\<close>, \<open>signed\<close> and \<open>signTransaction\<close> carry
  the prefix \<open>sent_\<close> here.
\<close>

record 'T SentTransaction =
  sent_server :: Server
  sent_signTransaction :: "(XDR_BASE64 \<Rightarrow> string \<Rightarrow> thrown + XDR_BASE64) option"
  assembled :: "'T AssembledTransaction"
  sent_signed :: "Tx option"
  sendTransactionResponse :: "SendTransactionResponse option"
  getTransactionResponseAll :: "GetTransactionResponse list option"
  getTransactionResponse :: "GetTransactionResponse option"

text \<open>
  The constructor: the guard on \<open>signTransaction\<close>, then \<open>this.server = new
  Server(assembled.options.rpcUrl, {allowHttp: assembled.options.allowHttp ?? false})\<close>.
\<close>

definition new_SentTransaction ::
  "Deps \<Rightarrow> (XDR_BASE64 \<Rightarrow> string \<Rightarrow> thrown + XDR_BASE64) option \<Rightarrow> 'T AssembledTransaction \<Rightarrow>
   thrown + 'T SentTransaction" where
  "new_SentTransaction deps signTransaction' assembled' =
    (case signTransaction' of
      None \<Rightarrow>
        Inl (JsError ErrorC
          ''You must provide a `signTransaction` function to send a transaction'')
    | Some f \<Rightarrow>
      (case new_Server deps (rpcUrl (options assembled'))
              (case allowHttp (options assembled') of None \<Rightarrow> False | Some b \<Rightarrow> b) of
        Inl e \<Rightarrow> Inl e
      | Inr srv \<Rightarrow>
          Inr \<lparr>sent_server = srv, sent_signTransaction = signTransaction',
               assembled = assembled',
               sent_signed = None, sendTransactionResponse = None,
               getTransactionResponseAll = None, getTransactionResponse = None\<rparr>))"

text \<open>
  \<open>send\<close>, first half: refresh the envelope when \<open>updateTimeout\<close>, have it signed, submit
  it. \<open>now\<close> is the clock when \<open>setTimeout\<close> runs. \<open>new SorobanDataBuilder(data.toXDR())
  .build()\<close> takes the transaction data through its XDR form. The messages of
  \<open>SendFailed\<close> and \<open>TransactionStillPending\<close> are kept up to their first interpolation.
\<close>

definition send_submit ::
  "Deps \<Rightarrow> bool \<Rightarrow> nat \<Rightarrow> 'T SentTransaction \<Rightarrow> (thrown + unit) \<times> 'T SentTransaction" where
  "send_submit deps updateTimeout now this =
    (let timeoutInSeconds' = timeoutOf deps (options (assembled this))
     in case (if updateTimeout then
                (case built (assembled this) of
                  None \<Rightarrow>
                    (Inl (JsError TypeErrorC
                       ''Cannot read properties of undefined (reading 'fee')''), this)
                | Some b \<Rightarrow>
                  (case simulationData (assembled this) of
                    (Inl e, a1) \<Rightarrow> (Inl e, this\<lparr>assembled := a1\<rparr>)
                  | (Inr d, a1) \<Rightarrow>
                    (case SorobanTransactionData_fromXDR deps
                            (SorobanTransactionData_toXDR deps (transactionData d)) of
                      Inl e \<Rightarrow> (Inl e, this\<lparr>assembled := a1\<rparr>)
                    | Inr sorobanData' \<Rightarrow>
                      (case refreshed now timeoutInSeconds' b sorobanData' of
                        Inl e \<Rightarrow> (Inl e, this\<lparr>assembled := a1\<rparr>)
                      | Inr b' \<Rightarrow> (Inr (), this\<lparr>assembled := a1\<lparr>built := Some b'\<rparr>\<rparr>)))))
              else (Inr (), this)) of
          (Inl e, this1) \<Rightarrow> (Inl e, this1)
        | (Inr u, this1) \<Rightarrow>
          (case sent_signTransaction this1 of
            None \<Rightarrow> (Inl (JsError TypeErrorC ''this.signTransaction is not a function''), this1)
          | Some f \<Rightarrow>
            (case built (assembled this1) of
              None \<Rightarrow>
                (Inl (JsError TypeErrorC
                   ''Cannot read properties of undefined (reading 'toXDR')''), this1)
            | Some b1 \<Rightarrow>
              (case f (Tx_toXDR deps b1) (networkPassphrase (options (assembled this1))) of
                Inl e \<Rightarrow> (Inl e, this1)
              | Inr signature' \<Rightarrow>
                (case TransactionBuilder_fromXDR deps signature'
                        (networkPassphrase (options (assembled this1))) of
                  Inl e \<Rightarrow> (Inl e, this1)
                | Inr s \<Rightarrow>
                  (let this2 = this1\<lparr>sent_signed := Some s\<rparr>
                   in case sendTransaction (sent_server this2) s of
                        Inl e \<Rightarrow> (Inl e, this2)
                      | Inr resp \<Rightarrow> (Inr (), this2\<lparr>sendTransactionResponse := Some resp\<rparr>)))))))"

text \<open>
  \<open>send\<close>, second half, from the check of the submission's status on. \<open>start\<close> is the
  clock when polling begins. An empty list of attempts would make
  \<open>getTransactionResponse\<close> \<open>undefined\<close>, and reading its \<open>status\<close> a \<open>TypeError\<close>.
\<close>

definition send_poll ::
  "Deps \<Rightarrow> nat \<Rightarrow> 'T SentTransaction \<Rightarrow> (thrown + unit) \<times> 'T SentTransaction" where
  "send_poll deps start this =
    (let timeoutInSeconds' = timeoutOf deps (options (assembled this))
     in case sendTransactionResponse this of
          None \<Rightarrow>
            (Inl (JsError TypeErrorC
               ''Cannot read properties of undefined (reading 'status')''), this)
        | Some resp \<Rightarrow>
            if send_status resp \<noteq> ''PENDING'' then
              (Inl (JsError SendFailedError ''Sending the transaction to the network failed!''),
               this)
            else
              (case withExponentialBackoff (getTransaction (sent_server this) (hash resp))
                      (\<lambda>resp'. status resp' = NOT_FOUND) timeoutInSeconds' start of
                Inl e \<Rightarrow> (Inl e, this)
              | Inr attempts \<Rightarrow>
                (let this1 = this\<lparr>getTransactionResponseAll := Some attempts\<rparr>
                 in case attempts of
                      [] \<Rightarrow>
                        (Inl (JsError TypeErrorC
                           ''Cannot read properties of undefined (reading 'status')''),
                         this1\<lparr>getTransactionResponse := None\<rparr>)
                    | _ # _ \<Rightarrow>
                      (let this2 = this1\<lparr>getTransactionResponse := Some (last attempts)\<rparr>
                       in if status (last attempts) = NOT_FOUND then
                            (Inl (JsError TransactionStillPendingError ''Waited ''), this2)
                          else (Inr (), this2)))))"

definition send ::
  "Deps \<Rightarrow> bool \<Rightarrow> nat \<Rightarrow> nat \<Rightarrow> 'T SentTransaction \<Rightarrow>
   (thrown + unit) \<times> 'T SentTransaction" where
  "send deps updateTimeout now start this =
    (case send_submit deps updateTimeout now this of
      (Inl e, this1) \<Rightarrow> (Inl e, this1)
    | (Inr u, this1) \<Rightarrow> send_poll deps start this1)"

section \<open>ContractClient\<close>

text \<open>
  The values that pass through the client: option objects, argument records and the
  members the constructor adds. An object is a map from its keys; \<open>errorTypes\<close> is keyed
  by the error code, each code standing for its \<open>{message}\<close>.
\<close>

datatype 'T JsValue =
    Undefined
  | JsString string
  | JsNumber int
  | JsBool bool
  | JsObject "string \<Rightarrow> 'T JsValue option"
  | JsScVals "ScVal list"
  | JsErrorTypes "nat \<Rightarrow> string option"
  | JsParseResultXdr "ScVal \<Rightarrow> thrown + 'T"
  | JsFunction string

fun truthy :: "'T JsValue \<Rightarrow> bool" where
  "truthy Undefined = False"
| "truthy (JsString s) = (s \<noteq> [])"
| "truthy (JsNumber n) = (n \<noteq> 0)"
| "truthy (JsBool b) = b"
| "truthy _ = True"

text \<open>\<open>{...v}\<close>: the own keys of an object; nothing for \<open>undefined\<close>.\<close>

fun spread :: "'T JsValue \<Rightarrow> (string \<Rightarrow> 'T JsValue option)" where
  "spread (JsObject m) = m"
| "spread _ = Map.empty"

text \<open>The i-th positional argument of a call; \<open>undefined\<close> when it was not passed.\<close>

definition argument :: "'T JsValue list \<Rightarrow> nat \<Rightarrow> 'T JsValue" where
  "argument actuals i = (if i < length actuals then actuals ! i else Undefined)"

text \<open>
  Modelled from the spec: \<open>ContractSpec\<close>, "an ordered sequence of function descriptors
  (each with name, input descriptors, output descriptor) and a set of error-case
  descriptors keyed by a small non-negative integer code with a documentation string".
  Marshalling (\<open>funcArgsToScVals\<close>, \<open>funcResToNative\<close>) belongs to the spec object and is
  a parameter.
\<close>

record ScSpecFunctionV0 =
  name :: string
  inputs :: "string list"

record ScSpecUdtErrorEnumCaseV0 =
  doc :: string
  case_value :: nat

record 'T ContractSpec =
  funcs :: "ScSpecFunctionV0 list"
  errorCases :: "ScSpecUdtErrorEnumCaseV0 list"
  funcArgsToScVals :: "string \<Rightarrow> 'T JsValue \<Rightarrow> thrown + ScVal list"
  funcResToNative :: "string \<Rightarrow> ScVal \<Rightarrow> thrown + 'T"

text \<open>\<open>spec.getFunc(name)\<close>: the first function descriptor of that name.\<close>

definition getFunc :: "'T ContractSpec \<Rightarrow> string \<Rightarrow> ScSpecFunctionV0 option" where
  "getFunc spec n = find (\<lambda>f. name f = n) (funcs spec)"

text \<open>
  \<open>spec.errorCases().reduce((acc, curr) => ({...acc, [curr.value()]: {message:
  curr.doc().toString()}}), {})\<close>.
\<close>

definition errorTypesFromSpec :: "'T ContractSpec \<Rightarrow> (nat \<Rightarrow> string option)" where
  "errorTypesFromSpec spec =
    foldl (\<lambda>acc curr. acc(case_value curr \<mapsto> doc curr)) Map.empty (errorCases spec)"

text \<open>
  A client is the map from member names to the methods the constructor has attached.
  A method takes its positional arguments and ends in \<open>AssembledTransaction.build(o)\<close>;
  the model gives the object \<open>o\<close> that \<open>build\<close> is called with, or what marshalling threw.
\<close>

type_synonym 'T ClientMethod = "'T JsValue list \<Rightarrow> thrown + (string \<Rightarrow> 'T JsValue option)"

subsection \<open>contract/client.ts\<close>

text \<open>
  The closure \<open>assembleTransaction(args?, methodOptions?)\<close> of the constructor in
  \<open>contract/client.ts\<close>. The object literal is read left to right: later keys and later
  spreads replace earlier ones.
\<close>

definition assembleTransaction ::
  "'T ContractSpec \<Rightarrow> (string \<Rightarrow> 'T JsValue option) \<Rightarrow> string \<Rightarrow> 'T JsValue \<Rightarrow> 'T JsValue \<Rightarrow>
   thrown + (string \<Rightarrow> 'T JsValue option)" where
  "assembleTransaction spec options' method' args' methodOptions =
    (case (if truthy args' then
             (case funcArgsToScVals spec method' args' of
               Inl e \<Rightarrow> Inl e
             | Inr vals \<Rightarrow> Inr (JsScVals vals))
           else Inr args') of
      Inl e \<Rightarrow> Inl e
    | Inr a \<Rightarrow>
        Inr ((([''method'' \<mapsto> JsString method', ''args'' \<mapsto> a] ++ options') ++ spread methodOptions)
               (''errorTypes'' \<mapsto> JsErrorTypes (errorTypesFromSpec spec),
                ''parseResultXdr'' \<mapsto> JsParseResultXdr (funcResToNative spec method'))))"

text \<open>
  The member attached for one function descriptor. \<open>getFunc\<close> cannot fail here: the name
  is that of a descriptor of \<open>spec.funcs()\<close>.
\<close>

definition clientMethod ::
  "'T ContractSpec \<Rightarrow> (string \<Rightarrow> 'T JsValue option) \<Rightarrow> string \<Rightarrow> 'T ClientMethod" where
  "clientMethod spec options' method' =
    (if (case getFunc spec method' of None \<Rightarrow> False | Some f \<Rightarrow> length (inputs f) = 0) then
       (\<lambda>actuals. assembleTransaction spec options' method' Undefined (argument actuals 0))
     else
       (\<lambda>actuals. assembleTransaction spec options' method' (argument actuals 0)
                     (argument actuals 1)))"

definition ContractClient ::
  "'T ContractSpec \<Rightarrow> (string \<Rightarrow> 'T JsValue option) \<Rightarrow> (string \<Rightarrow> 'T ClientMethod option)" where
  "ContractClient spec options' =
    foldl (\<lambda>this xdrFn. this(name xdrFn \<mapsto> clientMethod spec options' (name xdrFn)))
      Map.empty (funcs spec)"

subsection \<open>contract_client/client.ts\<close>

text \<open>
  The member that the constructor in \<open>contract_client/client.ts\<close> attaches, \<open>async (args,
  options) => AssembledTransaction.build({...})\<close>, the same for every function.
\<close>

definition contract_client_method ::
  "'T ContractSpec \<Rightarrow> (string \<Rightarrow> 'T JsValue option) \<Rightarrow> string \<Rightarrow> 'T ClientMethod" where
  "contract_client_method spec this_options name' =
    (\<lambda>actuals.
      (let args' = argument actuals 0; options' = argument actuals 1
       in case funcArgsToScVals spec name' args' of
            Inl e \<Rightarrow> Inl e
          | Inr vals \<Rightarrow>
              Inr ((([''method'' \<mapsto> JsString name', ''args'' \<mapsto> JsScVals vals] ++ spread options')
                      ++ this_options)
                     (''errorTypes'' \<mapsto> JsErrorTypes (errorTypesFromSpec spec),
                      ''parseResultXdr'' \<mapsto> JsParseResultXdr (funcResToNative spec name')))))"

definition contract_client_ContractClient ::
  "'T ContractSpec \<Rightarrow> (string \<Rightarrow> 'T JsValue option) \<Rightarrow> (string \<Rightarrow> 'T ClientMethod option)" where
  "contract_client_ContractClient spec this_options =
    foldl (\<lambda>this method'. this(name method' \<mapsto> contract_client_method spec this_options
                                               (name method')))
      Map.empty (funcs spec)"

section \<open>Concrete inputs\<close>

text \<open>
  A small instance of everything the model leaves open, on which the theorems below are
  run: codecs that keep one field each, a signer that signs anything, a swap with two
  co-signers.
\<close>

text \<open>A server on which the transaction stays unknown; its answers tell when they were given.\<close>

definition example_server :: Server where
  "example_server =
    \<lparr>sendTransaction = (\<lambda>s. Inr \<lparr>send_status = ''PENDING'', hash = ''h1''\<rparr>),
     getTransaction = (\<lambda>h t. Inr \<lparr>status = NOT_FOUND, returnValue = None, latestLedger = t\<rparr>)\<rparr>"

text \<open>The number of binary digits of a natural number.\<close>

fun bitLength :: "nat \<Rightarrow> nat" where
  "bitLength n = (if n = 0 then 0 else Suc (bitLength (n div 2)))"

text \<open>
  The double nearest to a whole number, ties to the even significand of 53 bits;
  \<open>None\<close> past the largest double.
\<close>

definition nearestDouble :: "nat \<Rightarrow> nat option" where
  "nearestDouble n =
    (if bitLength n \<le> 53 then Some n
     else (let e = bitLength n - 53;
               q = n div 2 ^ e;
               r = n mod 2 ^ e;
               q' = (if 2 ^ (e - 1) < r \<or> (r = 2 ^ (e - 1) \<and> odd q) then q + 1 else q)
           in if 1024 < bitLength (q' * 2 ^ e) then None else Some (q' * 2 ^ e)))"

definition example_deps :: Deps where
  "example_deps =
    \<lparr>encodeEd25519PublicKey = (\<lambda>k. CHR ''G'' # k),
     DEFAULT_TIMEOUT = 30,
     Tx_toXDR = (\<lambda>b. case b of TransactionTx t \<Rightarrow> ''tx:'' @ fee t
                              | FeeBumpTransaction j \<Rightarrow> ''fb:'' @ j),
     TransactionBuilder_fromXDR = (\<lambda>s p.
        if take 3 s = ''fb:'' then Inr (FeeBumpTransaction (drop 3 s))
        else Inr (TransactionTx \<lparr>source = [], sequence = 0, fee = drop 3 s, timeBounds = None,
                                operations = [], sorobanData = None\<rparr>)),
     SorobanAuthorizationEntry_toXDR = rootInvocation,
     SorobanAuthorizationEntry_fromXDR = (\<lambda>s.
        Inr \<lparr>credentials = SorobanCredentialsSourceAccount, rootInvocation = s\<rparr>),
     ScVal_toXDR = (\<lambda>v. case v of ScvVoid \<Rightarrow> [] | ScvOther s \<Rightarrow> s),
     ScVal_fromXDR = (\<lambda>s. Inr (if s = [] then ScvVoid else ScvOther s)),
     SorobanTransactionData_toXDR = (\<lambda>d. concat (readWrite (footprint (resources d)))),
     SorobanTransactionData_fromXDR = (\<lambda>s.
        Inr \<lparr>resources = \<lparr>footprint = \<lparr>readOnly = [], readWrite = (if s = [] then [] else [s])\<rparr>,
                          instructions = 0\<rparr>,
             resourceFee = 0\<rparr>),
     authorizeEntry = (\<lambda>entry f ledger passphrase.
        case f (rootInvocation entry) of
          Inl e \<Rightarrow> Inl e
        | Inr sig \<Rightarrow>
            Inr (entry\<lparr>credentials :=
              (case credentials entry of
                SorobanCredentialsSourceAccount \<Rightarrow> SorobanCredentialsSourceAccount
              | SorobanCredentialsAddress c \<Rightarrow>
                  SorobanCredentialsAddress
                    (c\<lparr>signatureExpirationLedger := ledger, signature := ScvOther sig\<rparr>))\<rparr>)),
     new_Server = (\<lambda>url allowHttp'.
        if take 8 url = ''https://'' \<or> allowHttp' then Inr example_server
        else Inl (JsError ErrorC ''Cannot connect to insecure Soroban RPC server'')),
     integerToNumber = nearestDouble\<rparr>"

definition example_options :: "string AssembledTransactionOptions" where
  "example_options =
    \<lparr>method_name = ''swap'', args = None, contractId = ''C1'',
     networkPassphrase = ''Standalone Network ; February 2017'',
     rpcUrl = ''http://localhost:8000/soroban/rpc'', allowHttp = Some True,
     publicKey = None, signTransaction = None, signAuthEntry = None,
     errorTypes = Some [3 \<mapsto> ''insufficient'', 9007199254740992 \<mapsto> ''rounded''],
     opt_fee = None, timeoutInSeconds = Some 45, simulate = Some False,
     parseResultXdr = (\<lambda>v. case v of
        ScvVoid \<Rightarrow> Inr []
      | ScvOther s \<Rightarrow> if s = ''trap'' then Inl (ThrownObject ''HostError: Error(Contract, #3)'')
                      else if s = ''bad'' then Inl (JsError TypeErrorC ''invalid type'')
                      else if s = ''unregistered'' then
                        Inl (ThrownObject ''Error(Contract, #4)'')
                      else if s = ''huge'' then
                        Inl (ThrownObject ''Error(Contract, #9007199254740993)'')
                      else if s = ''primitive'' then Inl ThrownPrimitive
                      else Inr s)\<rparr>"

definition example_address_entry :: "string \<Rightarrow> ScVal \<Rightarrow> SorobanAuthorizationEntry" where
  "example_address_entry k sig =
    \<lparr>credentials = SorobanCredentialsAddress
        \<lparr>address = ScAddressTypeAccount k, nonce = 7, signatureExpirationLedger = 0,
         signature = sig\<rparr>,
     rootInvocation = ''swap:'' @ k\<rparr>"

definition example_source_entry :: SorobanAuthorizationEntry where
  "example_source_entry =
    \<lparr>credentials = SorobanCredentialsSourceAccount, rootInvocation = ''swap''\<rparr>"

definition example_transaction :: "SorobanAuthorizationEntry list \<Rightarrow> Transaction" where
  "example_transaction entries =
    \<lparr>source = ''GINVOKER'', sequence = 5, fee = ''2100'',
     timeBounds = Some \<lparr>minTime = 100, maxTime = 500\<rparr>,
     operations = [InvokeHostFunction ''swap'' (Some entries)], sorobanData = None\<rparr>"

definition example_data :: "string list \<Rightarrow> SorobanTransactionData" where
  "example_data written =
    \<lparr>resources = \<lparr>footprint = \<lparr>readOnly = [''k0''], readWrite = written\<rparr>, instructions = 100\<rparr>,
     resourceFee = 2000\<rparr>"

text \<open>
  An AssembledTransaction as the constructor leaves it: nothing built, nothing simulated.
\<close>

definition example_unsimulated :: "string AssembledTransaction" where
  "example_unsimulated =
    \<lparr>options = example_options, server = example_server,
     built = None, simulation = None, simulationResult = None,
     simulationTransactionData = None, signed = None\<rparr>"

text \<open>
  An AssembledTransaction after a successful simulation: \<open>built\<close> set, the live response
  held, the cache not yet written.
\<close>

definition example_simulated ::
  "SorobanAuthorizationEntry list \<Rightarrow> ScVal \<Rightarrow> string list \<Rightarrow> string AssembledTransaction" where
  "example_simulated entries v written =
    \<lparr>options = example_options, server = example_server,
     built = Some (TransactionTx (example_transaction entries)),
     simulation = Some (SimulationSuccess (Some \<lparr>auth = entries, retval = v\<rparr>)
                          (example_data written) ''{}''),
     simulationResult = None, simulationTransactionData = None, signed = None\<rparr>"

text \<open>An AssembledTransaction whose simulation ended in a contract error.\<close>

definition example_failed_simulation :: "string AssembledTransaction" where
  "example_failed_simulation =
    \<lparr>options = example_options, server = example_server,
     built = Some (TransactionTx (example_transaction [])),
     simulation = Some (SimulationError ''HostError: Error(Contract, #3)''),
     simulationResult = None, simulationTransactionData = None, signed = None\<rparr>"

definition example_signer :: "XDR_BASE64 \<Rightarrow> string \<Rightarrow> thrown + XDR_BASE64" where
  "example_signer envelope passphrase = Inr envelope"

text \<open>A SentTransaction as the constructor leaves it, for a simulated write call.\<close>

definition example_sent :: "string SentTransaction" where
  "example_sent =
    \<lparr>sent_server = example_server, sent_signTransaction = Some example_signer,
     assembled = example_simulated [example_source_entry] ScvVoid [''k1''],
     sent_signed = None, sendTransactionResponse = None,
     getTransactionResponseAll = None, getTransactionResponse = None\<rparr>"

definition example_spec :: "string ContractSpec" where
  "example_spec =
    \<lparr>funcs = [\<lparr>name = ''inc'', inputs = []\<rparr>, \<lparr>name = ''hello'', inputs = [''to'']\<rparr>],
     errorCases = [\<lparr>doc = ''insufficient'', case_value = 3\<rparr>],
     funcArgsToScVals = (\<lambda>n a.
        if n = ''hello'' then
          (case spread a ''to'' of
            Some (JsString s) \<Rightarrow> Inr [ScvOther s]
          | _ \<Rightarrow> Inl (JsError TypeErrorC ''missing argument''))
        else Inr []),
     funcResToNative = (\<lambda>n v. case v of ScvVoid \<Rightarrow> Inr [] | ScvOther s \<Rightarrow> Inr s)\<rparr>"

definition example_client_options :: "string \<Rightarrow> string JsValue option" where
  "example_client_options =
    [''rpcUrl'' \<mapsto> JsString ''http://localhost:8000/soroban/rpc'',
     ''contractId'' \<mapsto> JsString ''C1'',
     ''networkPassphrase'' \<mapsto> JsString ''Standalone Network ; February 2017'']"

text \<open>\<open>client[name](...actuals)\<close>: calling what is no member is a \<open>TypeError\<close>.\<close>

definition call ::
  "(string \<Rightarrow> 'T ClientMethod option) \<Rightarrow> string \<Rightarrow> 'T JsValue list \<Rightarrow>
   thrown + (string \<Rightarrow> 'T JsValue option)" where
  "call client n actuals =
    (case client n of
      None \<Rightarrow> Inl (JsError TypeErrorC ''client[name] is not a function'')
    | Some m \<Rightarrow> m actuals)"

section \<open>What the claims speak of\<close>

text \<open>
  The XDR codecs are stable: what was encoded decodes, and the decoded value encodes to
  the same bytes again.
\<close>

definition xdr_stable :: "Deps \<Rightarrow> bool" where
  "xdr_stable deps =
    ((\<forall>b p. \<exists>b'. TransactionBuilder_fromXDR deps (Tx_toXDR deps b) p = Inr b'
         \<and> Tx_toXDR deps b' = Tx_toXDR deps b)
   \<and> (\<forall>a. \<exists>a'. SorobanAuthorizationEntry_fromXDR deps (SorobanAuthorizationEntry_toXDR deps a)
                  = Inr a'
         \<and> SorobanAuthorizationEntry_toXDR deps a' = SorobanAuthorizationEntry_toXDR deps a)
   \<and> (\<forall>v. \<exists>v'. ScVal_fromXDR deps (ScVal_toXDR deps v) = Inr v'
         \<and> ScVal_toXDR deps v' = ScVal_toXDR deps v)
   \<and> (\<forall>d. \<exists>d'. SorobanTransactionData_fromXDR deps (SorobanTransactionData_toXDR deps d)
                  = Inr d'
         \<and> SorobanTransactionData_toXDR deps d' = SorobanTransactionData_toXDR deps d))"

text \<open>
  The account of an auth entry that still waits for its signature: address credentials
  of an account, the signature slot void.
\<close>

definition unsignedAccount :: "SorobanAuthorizationEntry \<Rightarrow> string option" where
  "unsignedAccount entry =
    (case credentials entry of
      SorobanCredentialsSourceAccount \<Rightarrow> None
    | SorobanCredentialsAddress c \<Rightarrow>
        if signature c = ScvVoid then
          (case address c of
            ScAddressTypeAccount k \<Rightarrow> Some k
          | ScAddressTypeContract h \<Rightarrow> None)
        else None)"

text \<open>Address credentials of a contract, the signature slot void.\<close>

definition unsignedContract :: "SorobanAuthorizationEntry \<Rightarrow> bool" where
  "unsignedContract entry =
    (case credentials entry of
      SorobanCredentialsSourceAccount \<Rightarrow> False
    | SorobanCredentialsAddress c \<Rightarrow>
        signature c = ScvVoid \<and>
        (case address c of ScAddressTypeAccount k \<Rightarrow> False | ScAddressTypeContract h \<Rightarrow> True))"

text \<open>A list without its repetitions, each element where it first stands.\<close>

fun first_occurrences :: "'a list \<Rightarrow> 'a list" where
  "first_occurrences [] = []"
| "first_occurrences (x # xs) = x # first_occurrences (filter (\<lambda>y. y \<noteq> x) xs)"

text \<open>The value of a decimal digit, and of a string of them read as a decimal numeral.\<close>

definition decimalDigit :: "char \<Rightarrow> nat option" where
  "decimalDigit =
    map_of [(CHR ''0'', 0), (CHR ''1'', 1), (CHR ''2'', 2), (CHR ''3'', 3), (CHR ''4'', 4),
            (CHR ''5'', 5), (CHR ''6'', 6), (CHR ''7'', 7), (CHR ''8'', 8), (CHR ''9'', 9)]"

fun decimalLeastFirst :: "string \<Rightarrow> nat" where
  "decimalLeastFirst [] = 0"
| "decimalLeastFirst (c # cs) =
    (case decimalDigit c of None \<Rightarrow> 0 | Some d \<Rightarrow> d) + 10 * decimalLeastFirst cs"

definition decimal :: "string \<Rightarrow> nat" where
  "decimal ds = decimalLeastFirst (rev ds)"

text \<open>
  The string reads \<open>Error(Contract, #ds)\<close> from offset \<open>n\<close> on, \<open>ds\<close> being one or more
  decimal digits: a match of the contract-error pattern at \<open>n\<close>, with \<open>ds\<close> captured.
\<close>

definition contractErrorAt :: "string \<Rightarrow> nat \<Rightarrow> string \<Rightarrow> bool" where
  "contractErrorAt s n ds =
    (ds \<noteq> [] \<and> list_all (\<lambda>c. decimalDigit c \<noteq> None) ds
     \<and> (\<exists>rest. drop n s = ''Error(Contract, #'' @ ds @ '')'' @ rest))"

text \<open>The leftmost match, which is the one a regular expression reports; and no match.\<close>

definition firstContractError :: "string \<Rightarrow> string \<Rightarrow> bool" where
  "firstContractError s ds =
    (\<exists>n. contractErrorAt s n ds \<and> \<not> (\<exists>m ds'. m < n \<and> contractErrorAt s m ds'))"

definition noContractError :: "string \<Rightarrow> bool" where
  "noContractError s = (\<not> (\<exists>n ds. contractErrorAt s n ds))"

text \<open>
  The backoff schedule in closed form: attempt \<open>i\<close> is made \<open>2^i - 1\<close> seconds after the
  first, but no later than the deadline.
\<close>

definition attemptTime :: "nat \<Rightarrow> nat \<Rightarrow> nat \<Rightarrow> nat" where
  "attemptTime start timeout i = min (start + 2 ^ i - 1) (start + timeout)"

section \<open>Facts about the simulation cache\<close>

lemma simulationData_cached:
  "simulationData this = (Inr d, this') \<Longrightarrow>
   simulationResult this' = Some (result d) \<and>
   simulationTransactionData this' = Some (transactionData d)"
  by (auto simp: simulationData_def split: option.splits SimulateTransactionResponse.splits)

lemma simulationData_again:
  "simulationData this = (Inr d, this') \<Longrightarrow> simulationData this' = (Inr d, this')"
  by (auto simp: simulationData_def split: option.splits SimulateTransactionResponse.splits)

lemma simulationData_frame:
  "simulationData this = (r, this') \<Longrightarrow>
   built this' = built this \<and> options this' = options this \<and> signed this' = signed this
   \<and> simulation this' = simulation this \<and> server this' = server this"
  by (auto simp: simulationData_def split: option.splits SimulateTransactionResponse.splits)

lemma simulationData_of_cache:
  "simulationResult this = Some r \<Longrightarrow> simulationTransactionData this = Some td \<Longrightarrow>
   simulationData this = (Inr \<lparr>result = r, transactionData = td\<rparr>, this)"
  by (simp add: simulationData_def)

lemma isReadCall_simulated:
  assumes "simulationData this = (Inr d, this1)"
  shows "isReadCall this =
    (Inr (auth (result d) = [] \<and> readWrite (footprint (resources (transactionData d))) = []),
     this1)"
  using assms simulationData_again[OF assms] by (simp add: isReadCall_def)

lemma example_deps_stable: "xdr_stable example_deps"
  unfolding xdr_stable_def example_deps_def
  by (auto split: Tx.splits ScVal.splits)

lemma example_simulationData:
  "simulationData (example_simulated entries v written) =
    (Inr \<lparr>result = \<lparr>auth = entries, retval = v\<rparr>, transactionData = example_data written\<rparr>,
     (example_simulated entries v written)
       \<lparr>simulationResult := Some \<lparr>auth = entries, retval = v\<rparr>,
        simulationTransactionData := Some (example_data written)\<rparr>)"
  by (simp add: simulationData_def example_simulated_def)

lemma example_server_accepted:
  "new_Server example_deps (rpcUrl example_options)
     (case allowHttp example_options of None \<Rightarrow> False | Some b \<Rightarrow> b) = Inr example_server"
  by (simp add: example_deps_def example_options_def)

lemma example_constructed:
  "new_AssembledTransaction example_deps example_options = Inr example_unsimulated"
  unfolding new_AssembledTransaction_def example_server_accepted
  by (simp add: example_unsimulated_def example_options_def)

section \<open>Serialisation\<close>

lemma map_throwing_stable:
  assumes "\<forall>a. \<exists>a'. dec (enc a) = Inr a' \<and> enc a' = enc a"
  shows "\<exists>ys. map_throwing dec (map enc xs) = Inr ys \<and> map enc ys = map enc xs"
proof (induction xs)
  case Nil
  show ?case by simp
next
  case (Cons x xs)
  from assms obtain x' where x': "dec (enc x) = Inr x'" "enc x' = enc x" by blast
  from Cons obtain ys where ys: "map_throwing dec (map enc xs) = Inr ys" "map enc ys = map enc xs"
    by blast
  show ?case using x' ys by simp
qed

lemma toJSON_simulated:
  assumes "simulationData this = (Inr d, this1)"
  shows "toJSON deps this =
    (Inr \<lparr>json_method = method_name (options this),
          json_tx = map_option (Tx_toXDR deps) (built this),
          json_simulationResult =
            \<lparr>json_auth = map (SorobanAuthorizationEntry_toXDR deps) (auth (result d)),
             json_retval = ScVal_toXDR deps (retval (result d))\<rparr>,
          json_simulationTransactionData =
            SorobanTransactionData_toXDR deps (transactionData d)\<rparr>, this1)"
  using assms simulationData_again[OF assms] by (simp add: toJSON_def)

lemma fromJSON_refused:
  assumes "new_Server deps (rpcUrl opts) (case allowHttp opts of None \<Rightarrow> False | Some b \<Rightarrow> b)
           = Inl e"
  shows "fromJSON deps opts json = Inl e"
  using assms by (simp add: fromJSON_def new_AssembledTransaction_def)

text \<open>
  C1. A simulated AssembledTransaction (its envelope built, its simulation data there)
  serialises with \<open>toJSON\<close>, and \<open>fromJSON\<close> of that JSON, under options whose \<open>rpcUrl\<close>
  and \<open>allowHttp\<close> the \<open>Server\<close> constructor accepts, gives an AssembledTransaction whose
  built envelope, simulation return value, auth entries (one by one, in order) and
  transaction data encode to the same XDR as the original's. The codecs of the
  transaction library are taken to be stable (\<open>xdr_stable\<close>).
\<close>

theorem fromJSON_toJSON_roundtrip:
  assumes stable: "xdr_stable deps"
    and accepted: "new_Server deps (rpcUrl opts)
                     (case allowHttp opts of None \<Rightarrow> False | Some b \<Rightarrow> b) = Inr srv"
    and b: "built this = Some b"
    and d: "simulationData this = (Inr d, this1)"
  shows "\<exists>json txn d'.
      toJSON deps this = (Inr json, this1)
    \<and> fromJSON deps opts json = Inr txn
    \<and> server txn = srv
    \<and> (\<exists>b'. built txn = Some b' \<and> Tx_toXDR deps b' = Tx_toXDR deps b)
    \<and> simulationData txn = (Inr d', txn)
    \<and> ScVal_toXDR deps (retval (result d')) = ScVal_toXDR deps (retval (result d))
    \<and> map (SorobanAuthorizationEntry_toXDR deps) (auth (result d'))
        = map (SorobanAuthorizationEntry_toXDR deps) (auth (result d))
    \<and> SorobanTransactionData_toXDR deps (transactionData d')
        = SorobanTransactionData_toXDR deps (transactionData d)"
proof -
  from stable obtain b' where b':
    "TransactionBuilder_fromXDR deps (Tx_toXDR deps b) (networkPassphrase opts) = Inr b'"
    "Tx_toXDR deps b' = Tx_toXDR deps b"
    unfolding xdr_stable_def by blast
  from stable have "\<forall>a. \<exists>a'.
      SorobanAuthorizationEntry_fromXDR deps (SorobanAuthorizationEntry_toXDR deps a) = Inr a'
    \<and> SorobanAuthorizationEntry_toXDR deps a' = SorobanAuthorizationEntry_toXDR deps a"
    unfolding xdr_stable_def by blast
  from map_throwing_stable[OF this] obtain as where as:
    "map_throwing (SorobanAuthorizationEntry_fromXDR deps)
       (map (SorobanAuthorizationEntry_toXDR deps) (auth (result d))) = Inr as"
    "map (SorobanAuthorizationEntry_toXDR deps) as
       = map (SorobanAuthorizationEntry_toXDR deps) (auth (result d))"
    by blast
  from stable obtain v' where v':
    "ScVal_fromXDR deps (ScVal_toXDR deps (retval (result d))) = Inr v'"
    "ScVal_toXDR deps v' = ScVal_toXDR deps (retval (result d))"
    unfolding xdr_stable_def by blast
  from stable obtain td' where td':
    "SorobanTransactionData_fromXDR deps
       (SorobanTransactionData_toXDR deps (transactionData d)) = Inr td'"
    "SorobanTransactionData_toXDR deps td'
       = SorobanTransactionData_toXDR deps (transactionData d)"
    unfolding xdr_stable_def by blast
  define json where "json =
    \<lparr>json_method = method_name (options this),
     json_tx = Some (Tx_toXDR deps b),
     json_simulationResult =
       \<lparr>json_auth = map (SorobanAuthorizationEntry_toXDR deps) (auth (result d)),
        json_retval = ScVal_toXDR deps (retval (result d))\<rparr>,
     json_simulationTransactionData =
       SorobanTransactionData_toXDR deps (transactionData d)\<rparr>"
  define txn0 where "txn0 =
    \<lparr>options = opts\<lparr>simulate := Some (case simulate opts of None \<Rightarrow> True | Some b \<Rightarrow> b)\<rparr>,
     server = srv, built = None, simulation = None, simulationResult = None,
     simulationTransactionData = None, signed = None\<rparr>"
  define txn where "txn = txn0\<lparr>built := Some b',
      simulationResult := Some \<lparr>auth = as, retval = v'\<rparr>,
      simulationTransactionData := Some td'\<rparr>"
  have c: "new_AssembledTransaction deps opts = Inr txn0"
    using accepted by (simp add: new_AssembledTransaction_def txn0_def)
  have j: "toJSON deps this = (Inr json, this1)"
    using toJSON_simulated[OF d, of deps] b by (simp add: json_def)
  have f: "fromJSON deps opts json = Inr txn"
    using c b' as v' td' by (simp add: fromJSON_def txn_def json_def)
  have s: "simulationData txn =
      (Inr \<lparr>result = \<lparr>auth = as, retval = v'\<rparr>, transactionData = td'\<rparr>, txn)"
    by (rule simulationData_of_cache) (simp_all add: txn_def)
  have bt: "built txn = Some b'" "server txn = srv" by (simp_all add: txn_def txn0_def)
  show ?thesis using j f s bt b' as v' td' by auto
qed

theorem fromJSON_toJSON_roundtrip_witness:
  "\<exists>json txn d'.
      toJSON example_deps
        (example_simulated [example_address_entry ''A'' ScvVoid, example_source_entry]
           (ScvOther ''1'') [''k1''])
      = (Inr json,
         (example_simulated [example_address_entry ''A'' ScvVoid, example_source_entry]
            (ScvOther ''1'') [''k1''])
          \<lparr>simulationResult :=
             Some \<lparr>auth = [example_address_entry ''A'' ScvVoid, example_source_entry],
                   retval = ScvOther ''1''\<rparr>,
           simulationTransactionData := Some (example_data [''k1''])\<rparr>)
    \<and> fromJSON example_deps example_options json = Inr txn
    \<and> server txn = example_server
    \<and> (\<exists>b'. built txn = Some b' \<and> Tx_toXDR example_deps b' = ''tx:2100'')
    \<and> simulationData txn = (Inr d', txn)
    \<and> ScVal_toXDR example_deps (retval (result d')) = ''1''
    \<and> map (SorobanAuthorizationEntry_toXDR example_deps) (auth (result d'))
        = [''swap:A'', ''swap'']
    \<and> SorobanTransactionData_toXDR example_deps (transactionData d') = ''k1''"
proof -
  have b: "built (example_simulated [example_address_entry ''A'' ScvVoid, example_source_entry]
              (ScvOther ''1'') [''k1''])
           = Some (TransactionTx (example_transaction
                     [example_address_entry ''A'' ScvVoid, example_source_entry]))"
    by (simp add: example_simulated_def)
  show ?thesis
    using fromJSON_toJSON_roundtrip[OF example_deps_stable example_server_accepted b
        example_simulationData]
    by (simp add: example_deps_def example_transaction_def
          example_address_entry_def example_source_entry_def example_data_def)
qed

text \<open>
  C10. With no simulation response and an empty cache, \<open>toJSON\<close> throws
  \<open>NotYetSimulated\<close> and gives no JSON; the object is left as it was.
\<close>

theorem toJSON_not_yet_simulated:
  assumes "simulation this = None"
    and "simulationResult this = None"
    and "simulationTransactionData this = None"
  shows "toJSON deps this =
    (Inl (JsError NotYetSimulatedError ''Transaction has not yet been simulated''), this)"
  using assms by (simp add: toJSON_def simulationData_def)

theorem toJSON_not_yet_simulated_witness:
  "new_AssembledTransaction example_deps example_options = Inr example_unsimulated
   \<and> toJSON example_deps example_unsimulated =
    (Inl (JsError NotYetSimulatedError ''Transaction has not yet been simulated''),
     example_unsimulated)"
proof -
  have "toJSON example_deps example_unsimulated =
    (Inl (JsError NotYetSimulatedError ''Transaction has not yet been simulated''),
     example_unsimulated)"
    by (rule toJSON_not_yet_simulated) (simp_all add: example_unsimulated_def)
  with example_constructed show ?thesis by simp
qed

section \<open>Co-signers\<close>

lemma foldl_insertion_order:
  "foldl (\<lambda>seen x. if x \<in> set seen then seen else seen @ [x]) acc xs
   = acc @ first_occurrences (filter (\<lambda>x. x \<notin> set acc) xs)"
proof (induction xs arbitrary: acc)
  case Nil
  show ?case by simp
next
  case (Cons x xs)
  show ?case
  proof (cases "x \<in> set acc")
    case True
    then show ?thesis using Cons.IH[of acc] by simp
  next
    case False
    have "filter (\<lambda>y. y \<notin> set (acc @ [x])) xs
          = filter (\<lambda>y. y \<noteq> x) (filter (\<lambda>y. y \<notin> set acc) xs)"
      by (induction xs) auto
    then show ?thesis using False Cons.IH[of "acc @ [x]"] by simp
  qed
qed

lemma Set_in_insertion_order_first_occurrences:
  "Set_in_insertion_order xs = first_occurrences xs"
  by (simp add: Set_in_insertion_order_def foldl_insertion_order)

lemma set_first_occurrences: "set (first_occurrences xs) = set xs"
  by (induction xs rule: first_occurrences.induct) auto

lemma distinct_first_occurrences: "distinct (first_occurrences xs)"
  by (induction xs rule: first_occurrences.induct) (auto simp: set_first_occurrences)

lemma first_occurrences_distinct: "distinct xs \<Longrightarrow> first_occurrences xs = xs"
proof (induction xs)
  case Nil
  show ?case by simp
next
  case (Cons x xs)
  then have "filter (\<lambda>y. y \<noteq> x) xs = xs" by (auto intro: filter_True)
  with Cons show ?case by simp
qed

lemma map_throwing_entryPublicKey:
  assumes "\<forall>e\<in>set entries. \<not> unsignedContract e"
  shows "map_throwing (entryPublicKey deps) (filter (isUnsignedAddressEntry False) entries)
         = Inr (map (encodeEd25519PublicKey deps) (List.map_filter unsignedAccount entries))"
  using assms
proof (induction entries)
  case Nil
  show ?case by (simp add: List.map_filter_simps)
next
  case (Cons e es)
  then have rest: "map_throwing (entryPublicKey deps) (filter (isUnsignedAddressEntry False) es)
         = Inr (map (encodeEd25519PublicKey deps) (List.map_filter unsignedAccount es))"
    by simp
  from Cons.prems have e: "\<not> unsignedContract e" by simp
  show ?case
  proof (cases "credentials e")
    case SorobanCredentialsSourceAccount
    then have "\<not> isUnsignedAddressEntry False e" "unsignedAccount e = None"
      by (simp_all add: isUnsignedAddressEntry_def unsignedAccount_def)
    then show ?thesis using rest by (simp add: List.map_filter_simps)
  next
    case (SorobanCredentialsAddress c)
    show ?thesis
    proof (cases "signature c = ScvVoid")
      case False
      with SorobanCredentialsAddress
      have "\<not> isUnsignedAddressEntry False e" "unsignedAccount e = None"
        by (simp_all add: isUnsignedAddressEntry_def unsignedAccount_def)
      then show ?thesis using rest by (simp add: List.map_filter_simps)
    next
      case True
      with e SorobanCredentialsAddress obtain k where k: "address c = ScAddressTypeAccount k"
        by (cases "address c") (auto simp: unsignedContract_def)
      from True k SorobanCredentialsAddress
      have "isUnsignedAddressEntry False e" "unsignedAccount e = Some k"
        "entryPublicKey deps e = Inr (encodeEd25519PublicKey deps k)"
        by (simp_all add: isUnsignedAddressEntry_def unsignedAccount_def entryPublicKey_def)
      then show ?thesis using rest by (simp add: List.map_filter_simps)
    qed
  qed
qed

text \<open>
  C2. \<open>needsNonInvokerSigningBy\<close> throws when \<open>built\<close> is absent. When the first
  operation of the built transaction carries the auth entries \<open>entries\<close> and every
  address-credentialed entry whose signature slot is void is for an account, it returns
  the public keys of those entries, each once, where it first occurs; entries with source
  credentials are skipped. If the accounts are distinct, that is exactly their list.
\<close>

theorem needsNonInvokerSigningBy_enumerates:
  "(built this = None \<longrightarrow>
      needsNonInvokerSigningBy deps includeAlreadySigned this
        = Inl (JsError ErrorC ''Transaction has not yet been simulated''))
   \<and> (built this = Some (TransactionTx t)
        \<and> operations t = InvokeHostFunction func (Some entries) # ops
        \<and> (\<forall>e\<in>set entries. \<not> unsignedContract e) \<longrightarrow>
      needsNonInvokerSigningBy deps False this
        = Inr (first_occurrences
                (map (encodeEd25519PublicKey deps) (List.map_filter unsignedAccount entries)))
      \<and> (distinct (map (encodeEd25519PublicKey deps) (List.map_filter unsignedAccount entries))
           \<longrightarrow> needsNonInvokerSigningBy deps False this
                 = Inr (map (encodeEd25519PublicKey deps)
                          (List.map_filter unsignedAccount entries))))"
proof (intro conjI impI)
  assume "built this = None"
  then show "needsNonInvokerSigningBy deps includeAlreadySigned this
        = Inl (JsError ErrorC ''Transaction has not yet been simulated'')"
    by (simp add: needsNonInvokerSigningBy_def)
next
  assume h: "built this = Some (TransactionTx t)
        \<and> operations t = InvokeHostFunction func (Some entries) # ops
        \<and> (\<forall>e\<in>set entries. \<not> unsignedContract e)"
  then have keys: "map_throwing (entryPublicKey deps)
                     (filter (isUnsignedAddressEntry False) entries)
         = Inr (map (encodeEd25519PublicKey deps) (List.map_filter unsignedAccount entries))"
    using map_throwing_entryPublicKey by blast
  from h keys show r: "needsNonInvokerSigningBy deps False this
        = Inr (first_occurrences
                (map (encodeEd25519PublicKey deps) (List.map_filter unsignedAccount entries)))"
    by (simp add: needsNonInvokerSigningBy_def Set_in_insertion_order_first_occurrences)
  assume "distinct (map (encodeEd25519PublicKey deps) (List.map_filter unsignedAccount entries))"
  with r show "needsNonInvokerSigningBy deps False this
                 = Inr (map (encodeEd25519PublicKey deps)
                          (List.map_filter unsignedAccount entries))"
    by (simp add: first_occurrences_distinct)
qed

lemma example_swap_entries:
  "List.map_filter unsignedAccount
     [example_address_entry ''A'' ScvVoid, example_source_entry,
      example_address_entry ''B'' ScvVoid, example_address_entry ''A'' ScvVoid,
      example_address_entry ''C'' (ScvOther ''signed'')] = [''A'', ''B'', ''A'']"
  by (simp add: List.map_filter_simps unsignedAccount_def example_address_entry_def
        example_source_entry_def)

theorem needsNonInvokerSigningBy_enumerates_witness:
  "needsNonInvokerSigningBy example_deps False example_unsimulated
     = Inl (JsError ErrorC ''Transaction has not yet been simulated'')
   \<and> needsNonInvokerSigningBy example_deps False
       (example_simulated
          [example_address_entry ''A'' ScvVoid, example_source_entry,
           example_address_entry ''B'' ScvVoid, example_address_entry ''A'' ScvVoid,
           example_address_entry ''C'' (ScvOther ''signed'')] ScvVoid [''k1''])
     = Inr [''GA'', ''GB'']"
proof -
  have a: "built example_unsimulated = None"
    by (simp add: example_unsimulated_def)
  have b: "built (example_simulated
          [example_address_entry ''A'' ScvVoid, example_source_entry,
           example_address_entry ''B'' ScvVoid, example_address_entry ''A'' ScvVoid,
           example_address_entry ''C'' (ScvOther ''signed'')] ScvVoid [''k1''])
        = Some (TransactionTx (example_transaction
          [example_address_entry ''A'' ScvVoid, example_source_entry,
           example_address_entry ''B'' ScvVoid, example_address_entry ''A'' ScvVoid,
           example_address_entry ''C'' (ScvOther ''signed'')]))"
    by (simp add: example_simulated_def)
  have c: "operations (example_transaction
          [example_address_entry ''A'' ScvVoid, example_source_entry,
           example_address_entry ''B'' ScvVoid, example_address_entry ''A'' ScvVoid,
           example_address_entry ''C'' (ScvOther ''signed'')])
        = InvokeHostFunction ''swap'' (Some
          [example_address_entry ''A'' ScvVoid, example_source_entry,
           example_address_entry ''B'' ScvVoid, example_address_entry ''A'' ScvVoid,
           example_address_entry ''C'' (ScvOther ''signed'')]) # []"
    by (simp add: example_transaction_def)
  have d: "\<forall>e\<in>set [example_address_entry ''A'' ScvVoid, example_source_entry,
           example_address_entry ''B'' ScvVoid, example_address_entry ''A'' ScvVoid,
           example_address_entry ''C'' (ScvOther ''signed'')]. \<not> unsignedContract e"
    by (simp add: unsignedContract_def example_address_entry_def example_source_entry_def)
  have enc: "encodeEd25519PublicKey example_deps = (\<lambda>k. CHR ''G'' # k)"
    by (simp add: example_deps_def)
  from needsNonInvokerSigningBy_enumerates[where this = example_unsimulated
      and deps = example_deps and includeAlreadySigned = False] a
  have first: "needsNonInvokerSigningBy example_deps False
      example_unsimulated
     = Inl (JsError ErrorC ''Transaction has not yet been simulated'')"
    by blast
  from needsNonInvokerSigningBy_enumerates[where deps = example_deps] b c d
  have "needsNonInvokerSigningBy example_deps False
       (example_simulated
          [example_address_entry ''A'' ScvVoid, example_source_entry,
           example_address_entry ''B'' ScvVoid, example_address_entry ''A'' ScvVoid,
           example_address_entry ''C'' (ScvOther ''signed'')] ScvVoid [''k1''])
     = Inr (first_occurrences (map (encodeEd25519PublicKey example_deps)
         (List.map_filter unsignedAccount
           [example_address_entry ''A'' ScvVoid, example_source_entry,
            example_address_entry ''B'' ScvVoid, example_address_entry ''A'' ScvVoid,
            example_address_entry ''C'' (ScvOther ''signed'')])))"
    by blast
  then have second: "needsNonInvokerSigningBy example_deps False
       (example_simulated
          [example_address_entry ''A'' ScvVoid, example_source_entry,
           example_address_entry ''B'' ScvVoid, example_address_entry ''A'' ScvVoid,
           example_address_entry ''C'' (ScvOther ''signed'')] ScvVoid [''k1''])
     = Inr [''GA'', ''GB'']"
    unfolding example_swap_entries enc by simp
  from first second show ?thesis by simp
qed

section \<open>Read calls\<close>

lemma simulationData_options_update:
  "simulationData (this\<lparr>options := opts\<rparr>) =
    (fst (simulationData this), (snd (simulationData this))\<lparr>options := opts\<rparr>)"
  by (auto simp: simulationData_def split: option.splits SimulateTransactionResponse.splits)

text \<open>
  C3. For an AssembledTransaction whose simulation data is available, \<open>isReadCall\<close> is
  true exactly when the simulation's auth list is empty and the footprint has no
  read-write entry. On such a read call \<open>sign\<close> without \<open>force\<close> fails with
  \<open>NoSignatureNeeded\<close>, while \<open>result\<close> returns what \<open>parseResultXdr\<close> makes of the
  return value; the outcome of \<open>result\<close> is the same with both signer callbacks removed.
\<close>

theorem isReadCall_iff_and_read_call_needs_no_signature:
  assumes d: "simulationData this = (Inr d, this1)"
  shows "isReadCall this =
           (Inr (auth (result d) = []
                 \<and> readWrite (footprint (resources (transactionData d))) = []), this1)
    \<and> (built this = Some b \<and> auth (result d) = []
        \<and> readWrite (footprint (resources (transactionData d))) = [] \<longrightarrow>
          sign deps now False signTransaction_arg this =
            (Inl (JsError NoSignatureNeededError
               ''This is a read call. It requires no signature or sending. Use `force: true` to sign and send anyway.''),
             this1))
    \<and> (parseResultXdr (options this) (retval (result d)) = Inr v \<longrightarrow>
          AssembledTransaction_result deps this = (Inr (Parsed v), this1))
    \<and> fst (AssembledTransaction_result deps
             (this\<lparr>options := (options this)\<lparr>signTransaction := None, signAuthEntry := None\<rparr>\<rparr>))
        = fst (AssembledTransaction_result deps this)"
proof (intro conjI impI)
  show r: "isReadCall this =
           (Inr (auth (result d) = []
                 \<and> readWrite (footprint (resources (transactionData d))) = []), this1)"
    by (rule isReadCall_simulated[OF d])
  from simulationData_frame[OF d] have o: "options this1 = options this" by simp
  {
    assume "built this = Some b \<and> auth (result d) = []
        \<and> readWrite (footprint (resources (transactionData d))) = []"
    with r show "sign deps now False signTransaction_arg this =
            (Inl (JsError NoSignatureNeededError
               ''This is a read call. It requires no signature or sending. Use `force: true` to sign and send anyway.''),
             this1)"
      by (simp add: sign_def)
  }
  {
    assume "parseResultXdr (options this) (retval (result d)) = Inr v"
    with d o show "AssembledTransaction_result deps this = (Inr (Parsed v), this1)"
      by (simp add: AssembledTransaction_result_def)
  }
  show "fst (AssembledTransaction_result deps
             (this\<lparr>options := (options this)\<lparr>signTransaction := None, signAuthEntry := None\<rparr>\<rparr>))
        = fst (AssembledTransaction_result deps this)"
    using d o
    by (simp add: AssembledTransaction_result_def simulationData_options_update
          result_catch_def parseError_def split: sum.splits option.splits)
qed

theorem isReadCall_iff_and_read_call_needs_no_signature_witness:
  "isReadCall (example_simulated [] (ScvOther ''ok'') []) =
     (Inr True,
      (example_simulated [] (ScvOther ''ok'') [])
        \<lparr>simulationResult := Some \<lparr>auth = [], retval = ScvOther ''ok''\<rparr>,
         simulationTransactionData := Some (example_data [])\<rparr>)
   \<and> sign example_deps 1000 False (Some example_signer)
       (example_simulated [] (ScvOther ''ok'') []) =
     (Inl (JsError NoSignatureNeededError
        ''This is a read call. It requires no signature or sending. Use `force: true` to sign and send anyway.''),
      (example_simulated [] (ScvOther ''ok'') [])
        \<lparr>simulationResult := Some \<lparr>auth = [], retval = ScvOther ''ok''\<rparr>,
         simulationTransactionData := Some (example_data [])\<rparr>)
   \<and> AssembledTransaction_result example_deps (example_simulated [] (ScvOther ''ok'') []) =
     (Inr (Parsed ''ok''),
      (example_simulated [] (ScvOther ''ok'') [])
        \<lparr>simulationResult := Some \<lparr>auth = [], retval = ScvOther ''ok''\<rparr>,
         simulationTransactionData := Some (example_data [])\<rparr>)
   \<and> signTransaction (options (example_simulated [] (ScvOther ''ok'') [])) = None"
proof -
  have b: "built (example_simulated [] (ScvOther ''ok'') [])
           = Some (TransactionTx (example_transaction []))"
    by (simp add: example_simulated_def)
  have p: "parseResultXdr (options (example_simulated [] (ScvOther ''ok'') []))
             (ScvOther ''ok'') = Inr ''ok''"
    by (simp add: example_simulated_def example_options_def)
  have s: "signTransaction (options (example_simulated [] (ScvOther ''ok'') [])) = None"
    by (simp add: example_simulated_def example_options_def)
  show ?thesis
    using isReadCall_iff_and_read_call_needs_no_signature[OF example_simulationData,
        where b = "TransactionTx (example_transaction [])" and deps = example_deps
          and now = 1000 and signTransaction_arg = "Some example_signer" and v = "''ok''"]
        b p s
    by (simp add: example_data_def)
qed

section \<open>Signing auth entries\<close>

lemma signAuthEntries_without_candidates:
  assumes "built this = Some b"
    and "needsNonInvokerSigningBy deps False this = Inr []"
  shows "signAuthEntries deps storageExpiration expiration_arg signAuthEntry_arg publicKey_arg
           this =
    (Inl (JsError NoSignatureNeededError
       (''No auth entries for public key \"''
        @ (case (case publicKey_arg of None \<Rightarrow> publicKey (options this) | Some k \<Rightarrow> Some k) of
             None \<Rightarrow> ''undefined'' | Some k \<Rightarrow> k) @ ''\"'')), this)"
  using assms by (simp add: signAuthEntries_def array_is_truthy_def)

lemma signAuthEntries_other_key:
  assumes "built this = Some b"
    and "needsNonInvokerSigningBy deps False this = Inr needed"
    and "k \<notin> set needed"
  shows "signAuthEntries deps storageExpiration expiration_arg signAuthEntry_arg (Some k) this =
    (Inl (JsError NoSignatureNeededError (''No auth entries for public key \"'' @ k @ ''\"'')),
     this)"
  using assms by (simp add: signAuthEntries_def array_is_truthy_def)

lemma signAuthEntries_no_signer:
  assumes "built this = Some b"
    and "needsNonInvokerSigningBy deps False this = Inr needed"
    and "k \<in> set needed"
    and "signAuthEntry (options this) = None"
  shows "signAuthEntries deps storageExpiration expiration_arg None (Some k) this =
    (Inl (JsError NoSignerError
       ''You must provide `signAuthEntry` when calling `signAuthEntries`, or when constructing the `Client` or `AssembledTransaction`''),
     this)"
  using assms by (simp add: signAuthEntries_def array_is_truthy_def)

text \<open>
  C4. A built AssembledTransaction whose only auth entry has source credentials has no
  candidate entry. \<open>signAuthEntries\<close> for the key \<open>GA\<close>, with a \<open>signAuthEntry\<close> callback
  given, fails there with \<open>NoSignatureNeeded\<close>, not with
  \<open>NoUnsignedNonInvokerAuthEntries\<close>: the guard \<open>!needsNonInvokerSigningBy\<close> tests an
  array, which is never falsy.
\<close>

theorem signAuthEntries_zero_candidates:
  "needsNonInvokerSigningBy example_deps False
     (example_simulated [example_source_entry] ScvVoid [''k1'']) = Inr []
   \<and> signAuthEntries example_deps (Inr 100) None (Some (\<lambda>preimage. Inr ''sig'')) (Some ''GA'')
       (example_simulated [example_source_entry] ScvVoid [''k1''])
     = (Inl (JsError NoSignatureNeededError ''No auth entries for public key \"GA\"''),
        example_simulated [example_source_entry] ScvVoid [''k1''])"
proof -
  have n: "needsNonInvokerSigningBy example_deps False
     (example_simulated [example_source_entry] ScvVoid [''k1'']) = Inr []"
    by (simp add: needsNonInvokerSigningBy_def example_simulated_def example_transaction_def
          example_source_entry_def isUnsignedAddressEntry_def Set_in_insertion_order_def)
  have b: "built (example_simulated [example_source_entry] ScvVoid [''k1''])
           = Some (TransactionTx (example_transaction [example_source_entry]))"
    by (simp add: example_simulated_def)
  show ?thesis
    using n signAuthEntries_without_candidates[OF b n, of "Inr 100" None
        "Some (\<lambda>preimage. Inr ''sig'')" "Some ''GA''"]
    by simp
qed

section \<open>Signing the envelope\<close>

lemma isReadCall_returns:
  assumes "isReadCall this = (Inr r, this1)"
  shows "\<exists>d. simulationData this = (Inr d, this1)"
proof (cases "simulationData this")
  case (Pair o1 thisA)
  show ?thesis
  proof (cases o1)
    case (Inl e)
    with Pair assms show ?thesis by (simp add: isReadCall_def)
  next
    case (Inr d)
    with Pair have again: "simulationData thisA = (Inr d, thisA)"
      using simulationData_again by blast
    with Pair Inr assms have "this1 = thisA" by (simp add: isReadCall_def)
    with Pair Inr show ?thesis by simp
  qed
qed

lemma sign_returns:
  assumes "sign deps now force signTransaction_arg this = (Inr (), this')"
  shows "\<exists>b this1 f d this2 b' signature' s.
      built this = Some b
    \<and> (if force then (Inr False, this) else isReadCall this) = (Inr False, this1)
    \<and> (case signTransaction_arg of None \<Rightarrow> signTransaction (options this) | Some g \<Rightarrow> Some g)
        = Some f
    \<and> needsNonInvokerSigningBy deps False this1 = Inr []
    \<and> simulationData this1 = (Inr d, this2)
    \<and> refreshed now (timeoutOf deps (options this1)) b (transactionData d) = Inr b'
    \<and> f (Tx_toXDR deps b') (networkPassphrase (options this2)) = Inr signature'
    \<and> TransactionBuilder_fromXDR deps signature' (networkPassphrase (options this2)) = Inr s
    \<and> this' = this2\<lparr>built := Some b', signed := Some s\<rparr>"
  using assms unfolding sign_def Let_def
  by (auto split: option.splits prod.splits sum.splits bool.splits if_splits)

text \<open>
  C5. When \<open>sign\<close> succeeds at clock \<open>now\<close>, \<open>built\<close> is replaced by a clone of the
  transaction that was built: same source, sequence and operations, the same fee, the
  soroban data of the simulation, and time bounds from 0 to \<open>now\<close> plus
  \<open>options.timeoutInSeconds\<close>, or plus \<open>DEFAULT_TIMEOUT\<close> when the option is not set,
  whatever the time bounds were before. The signer is given the XDR of this clone, and
  \<open>signed\<close> is what its answer decodes to.
\<close>

theorem sign_refreshes_envelope:
  assumes "sign deps now force signTransaction_arg this = (Inr (), this')"
  shows "\<exists>t d f b' signature' s.
      built this = Some (TransactionTx t)
    \<and> fst (simulationData this) = Inr d
    \<and> (case signTransaction_arg of None \<Rightarrow> signTransaction (options this) | Some g \<Rightarrow> Some g)
        = Some f
    \<and> b' = TransactionTx
             \<lparr>source = source t, sequence = sequence t, fee = fee t,
              timeBounds = Some
                \<lparr>minTime = 0,
                 maxTime = now + (case timeoutInSeconds (options this) of
                                    None \<Rightarrow> DEFAULT_TIMEOUT deps
                                  | Some seconds \<Rightarrow> seconds)\<rparr>,
              operations = operations t, sorobanData = Some (transactionData d)\<rparr>
    \<and> built this' = Some b'
    \<and> f (Tx_toXDR deps b') (networkPassphrase (options this)) = Inr signature'
    \<and> TransactionBuilder_fromXDR deps signature' (networkPassphrase (options this)) = Inr s
    \<and> signed this' = Some s"
proof -
  from sign_returns[OF assms] obtain b this1 f d this2 b' signature' s where
      b: "built this = Some b"
    and pre: "(if force then (Inr False, this) else isReadCall this) = (Inr False, this1)"
    and f: "(case signTransaction_arg of None \<Rightarrow> signTransaction (options this)
              | Some g \<Rightarrow> Some g) = Some f"
    and d: "simulationData this1 = (Inr d, this2)"
    and r: "refreshed now (timeoutOf deps (options this1)) b (transactionData d) = Inr b'"
    and sg: "f (Tx_toXDR deps b') (networkPassphrase (options this2)) = Inr signature'"
    and s: "TransactionBuilder_fromXDR deps signature' (networkPassphrase (options this2))
            = Inr s"
    and this': "this' = this2\<lparr>built := Some b', signed := Some s\<rparr>"
    by blast
  have same: "fst (simulationData this) = Inr d \<and> options this1 = options this"
  proof (cases force)
    case True
    with pre d show ?thesis by simp
  next
    case False
    with pre have "isReadCall this = (Inr False, this1)" by simp
    from isReadCall_returns[OF this] obtain d0 where d0: "simulationData this = (Inr d0, this1)"
      by blast
    from simulationData_again[OF d0] d have "d0 = d" by simp
    with d0 simulationData_frame[OF d0] show ?thesis by simp
  qed
  from simulationData_frame[OF d] same have o2: "options this2 = options this" by simp
  from r obtain t where t: "b = TransactionTx t"
    by (cases b) (simp_all add: refreshed_def)
  from r t same have b': "b' = TransactionTx
             \<lparr>source = source t, sequence = sequence t, fee = fee t,
              timeBounds = Some
                \<lparr>minTime = 0,
                 maxTime = now + (case timeoutInSeconds (options this) of
                                    None \<Rightarrow> DEFAULT_TIMEOUT deps
                                  | Some seconds \<Rightarrow> seconds)\<rparr>,
              operations = operations t, sorobanData = Some (transactionData d)\<rparr>"
    by (simp add: refreshed_def build_def setTimeout_def cloneFrom_def timeoutOf_def)
  from this' have "built this' = Some b'" "signed this' = Some s" by simp_all
  with b t same f b' sg s o2 show ?thesis by auto
qed

text \<open>
  A simulated write call with no co-signer, signed at clock 1000: once with the timeout
  of 45 seconds that the options carry, once with the option unset and the default of 30.
\<close>

lemma example_sign:
  "fst (sign example_deps 1000 False (Some example_signer)
          ((example_simulated [example_source_entry] ScvVoid [''k1''])
             \<lparr>options := example_options\<lparr>timeoutInSeconds := seconds\<rparr>\<rparr>)) = Inr ()
   \<and> built ((example_simulated [example_source_entry] ScvVoid [''k1''])
             \<lparr>options := example_options\<lparr>timeoutInSeconds := seconds\<rparr>\<rparr>)
       = Some (TransactionTx (example_transaction [example_source_entry]))
   \<and> transactionData (projr (fst (simulationData
         ((example_simulated [example_source_entry] ScvVoid [''k1''])
             \<lparr>options := example_options\<lparr>timeoutInSeconds := seconds\<rparr>\<rparr>))))
       = example_data [''k1'']"
proof -
  let ?X = "(example_simulated [example_source_entry] ScvVoid [''k1''])
             \<lparr>options := example_options\<lparr>timeoutInSeconds := seconds\<rparr>\<rparr>"
  let ?X1 = "?X\<lparr>simulationResult := Some \<lparr>auth = [example_source_entry], retval = ScvVoid\<rparr>,
               simulationTransactionData := Some (example_data [''k1''])\<rparr>"
  have d: "simulationData ?X =
      (Inr \<lparr>result = \<lparr>auth = [example_source_entry], retval = ScvVoid\<rparr>,
            transactionData = example_data [''k1'']\<rparr>, ?X1)"
    by (simp add: simulationData_def example_simulated_def)
  have rc: "isReadCall ?X = (Inr False, ?X1)"
    using isReadCall_simulated[OF d] by (simp add: example_data_def)
  have d1: "simulationData ?X1 =
      (Inr \<lparr>result = \<lparr>auth = [example_source_entry], retval = ScvVoid\<rparr>,
            transactionData = example_data [''k1'']\<rparr>, ?X1)"
    by (rule simulationData_again[OF d])
  have b: "built ?X = Some (TransactionTx (example_transaction [example_source_entry]))"
    by (simp add: example_simulated_def)
  have n: "needsNonInvokerSigningBy example_deps False ?X1 = Inr []"
    by (simp add: needsNonInvokerSigningBy_def example_simulated_def example_transaction_def
          example_source_entry_def isUnsignedAddressEntry_def Set_in_insertion_order_def)
  have f: "TransactionBuilder_fromXDR example_deps s p = Inr
      (if take 3 s = ''fb:'' then FeeBumpTransaction (drop 3 s)
       else TransactionTx \<lparr>source = [], sequence = 0, fee = drop 3 s, timeBounds = None,
                             operations = [], sorobanData = None\<rparr>)" for s p
    by (simp add: example_deps_def)
  have "fst (sign example_deps 1000 False (Some example_signer) ?X) = Inr ()"
    by (simp add: sign_def Let_def rc b n d1 refreshed_def example_signer_def f)
  with b d show ?thesis by simp
qed

theorem sign_refreshes_envelope_witness:
  "(\<exists>signature' s.
     built (snd (sign example_deps 1000 False (Some example_signer)
                   (example_simulated [example_source_entry] ScvVoid [''k1'']))) =
       Some (TransactionTx
         \<lparr>source = ''GINVOKER'', sequence = 5, fee = ''2100'',
          timeBounds = Some \<lparr>minTime = 0, maxTime = 1045\<rparr>,
          operations = [InvokeHostFunction ''swap'' (Some [example_source_entry])],
          sorobanData = Some (example_data [''k1''])\<rparr>)
   \<and> example_signer ''tx:2100'' ''Standalone Network ; February 2017'' = Inr signature'
   \<and> TransactionBuilder_fromXDR example_deps signature' ''Standalone Network ; February 2017''
       = Inr s
   \<and> signed (snd (sign example_deps 1000 False (Some example_signer)
                    (example_simulated [example_source_entry] ScvVoid [''k1'']))) = Some s)
   \<and> built (snd (sign example_deps 1000 False (Some example_signer)
                   ((example_simulated [example_source_entry] ScvVoid [''k1''])
                      \<lparr>options := example_options\<lparr>timeoutInSeconds := None\<rparr>\<rparr>))) =
       Some (TransactionTx
         \<lparr>source = ''GINVOKER'', sequence = 5, fee = ''2100'',
          timeBounds = Some \<lparr>minTime = 0, maxTime = 1030\<rparr>,
          operations = [InvokeHostFunction ''swap'' (Some [example_source_entry])],
          sorobanData = Some (example_data [''k1''])\<rparr>)
   \<and> timeBounds (example_transaction [example_source_entry])
       = Some \<lparr>minTime = 100, maxTime = 500\<rparr>"
proof -
  let ?X = "\<lambda>seconds. (example_simulated [example_source_entry] ScvVoid [''k1''])
             \<lparr>options := example_options\<lparr>timeoutInSeconds := seconds\<rparr>\<rparr>"
  have x: "Tx_toXDR example_deps (TransactionTx
         \<lparr>source = ''GINVOKER'', sequence = 5, fee = ''2100'',
          timeBounds = Some \<lparr>minTime = 0, maxTime = m\<rparr>,
          operations = [InvokeHostFunction ''swap'' (Some [example_source_entry])],
          sorobanData = Some (example_data [''k1''])\<rparr>) = ''tx:2100''" for m
    by (simp add: example_deps_def)
  have gen: "\<exists>signature' s.
     built (snd (sign example_deps 1000 False (Some example_signer) (?X seconds))) =
       Some (TransactionTx
         \<lparr>source = ''GINVOKER'', sequence = 5, fee = ''2100'',
          timeBounds = Some \<lparr>minTime = 0,
             maxTime = 1000 + (case seconds of None \<Rightarrow> 30 | Some k \<Rightarrow> k)\<rparr>,
          operations = [InvokeHostFunction ''swap'' (Some [example_source_entry])],
          sorobanData = Some (example_data [''k1''])\<rparr>)
   \<and> example_signer ''tx:2100'' ''Standalone Network ; February 2017'' = Inr signature'
   \<and> TransactionBuilder_fromXDR example_deps signature' ''Standalone Network ; February 2017''
       = Inr s
   \<and> signed (snd (sign example_deps 1000 False (Some example_signer) (?X seconds))) = Some s"
    for seconds
  proof -
    have run: "sign example_deps 1000 False (Some example_signer) (?X seconds)
               = (Inr (), snd (sign example_deps 1000 False (Some example_signer) (?X seconds)))"
      using example_sign[of seconds] by (simp add: prod_eq_iff)
    have o: "options (?X seconds) = example_options\<lparr>timeoutInSeconds := seconds\<rparr>" by simp
    have dflt: "DEFAULT_TIMEOUT example_deps = 30" by (simp add: example_deps_def)
    have p: "networkPassphrase (example_options\<lparr>timeoutInSeconds := seconds\<rparr>)
             = ''Standalone Network ; February 2017''"
      by (simp add: example_options_def)
    from sign_refreshes_envelope[OF run] obtain t d f b' signature' s where
        1: "built (?X seconds) = Some (TransactionTx t)"
      and 2: "fst (simulationData (?X seconds)) = Inr d"
      and 3: "Some example_signer = Some f"
      and 4: "b' = TransactionTx
               \<lparr>source = source t, sequence = sequence t, fee = fee t,
                timeBounds = Some \<lparr>minTime = 0,
                   maxTime = 1000 + (case seconds of None \<Rightarrow> 30 | Some k \<Rightarrow> k)\<rparr>,
                operations = operations t, sorobanData = Some (transactionData d)\<rparr>"
      and 5: "built (snd (sign example_deps 1000 False (Some example_signer) (?X seconds)))
              = Some b'"
      and 6: "f (Tx_toXDR example_deps b') ''Standalone Network ; February 2017''
              = Inr signature'"
      and 7: "TransactionBuilder_fromXDR example_deps signature'
                ''Standalone Network ; February 2017'' = Inr s"
      and 8: "signed (snd (sign example_deps 1000 False (Some example_signer) (?X seconds)))
              = Some s"
      unfolding o p dflt by auto
    from 1 example_sign[of seconds] have t': "t = example_transaction [example_source_entry]"
      by simp
    from 2 example_sign[of seconds] have d': "transactionData d = example_data [''k1'']"
      by simp
    from 4 t' d' have b'': "b' = TransactionTx
           \<lparr>source = ''GINVOKER'', sequence = 5, fee = ''2100'',
            timeBounds = Some \<lparr>minTime = 0,
               maxTime = 1000 + (case seconds of None \<Rightarrow> 30 | Some k \<Rightarrow> k)\<rparr>,
            operations = [InvokeHostFunction ''swap'' (Some [example_source_entry])],
            sorobanData = Some (example_data [''k1''])\<rparr>"
      by (simp add: example_transaction_def)
    from 3 have "f = example_signer" by simp
    with 5 6 7 8 b'' x show ?thesis by auto
  qed
  have same: "?X (Some 45) = example_simulated [example_source_entry] ScvVoid [''k1'']"
    by (simp add: example_simulated_def example_options_def)
  have old: "timeBounds (example_transaction [example_source_entry])
       = Some \<lparr>minTime = 100, maxTime = 500\<rparr>"
    by (simp add: example_transaction_def)
  from gen[of "Some 45"] gen[of None] old show ?thesis
    unfolding same by auto
qed

section \<open>Contract errors\<close>

subsection \<open>The digits and the number they denote\<close>

lemma isDigit_decimalDigit: "isDigit c \<longleftrightarrow> decimalDigit c \<noteq> None"
  by (auto simp: isDigit_def decimalDigit_def)

lemma digitValue_decimalDigit: "isDigit c \<Longrightarrow> decimalDigit c = Some (digitValue c)"
  by (auto simp: isDigit_def decimalDigit_def digitValue_def)

lemma decimal_snoc:
  "decimal (ds @ [c]) = 10 * decimal ds + (case decimalDigit c of None \<Rightarrow> 0 | Some d \<Rightarrow> d)"
  by (simp add: decimal_def)

lemma foldl_digits_decimal:
  "list_all isDigit ds \<Longrightarrow> foldl (\<lambda>n c. 10 * n + digitValue c) 0 ds = decimal ds"
proof (induction ds rule: rev_induct)
  case Nil
  show ?case by (simp add: decimal_def)
next
  case (snoc c ds)
  then show ?case by (simp add: decimal_snoc digitValue_decimalDigit)
qed

text \<open>
  \<open>parseInt\<close> of a captured run of digits: the number the digits denote when that is
  below \<open>2^53\<close>, and the double \<open>integerToNumber\<close> gives otherwise.
\<close>

lemma parseInt_digits:
  assumes "ds \<noteq> []" and "list_all isDigit ds"
  shows "parseInt deps ds =
    (if decimal ds < 2 ^ 53 then Some (decimal ds) else integerToNumber deps (decimal ds))"
proof -
  from assms(2) have tw: "takeWhile isDigit ds = ds" by (simp add: list_all_iff)
  from assms(2) have f: "foldl (\<lambda>n c. 10 * n + digitValue c) 0 ds = decimal ds"
    by (rule foldl_digits_decimal)
  show ?thesis
    unfolding parseInt_def Let_def tw f using assms(1) by simp
qed

subsection \<open>The pattern\<close>

text \<open>The pattern finds a contract error that stands at the head of the string.\<close>

lemma contractErrorPattern_at_head:
  assumes "ds \<noteq> []" and "\<forall>c\<in>set ds. isDigit c"
  shows "contractErrorPattern_at (''Error(Contract, #'' @ ds @ '')'' @ rest) = Some ds"
proof -
  have nd: "\<not> isDigit CHR '')''" by (simp add: isDigit_def)
  have tw: "takeWhile isDigit (ds @ CHR '')'' # rest) = ds"
    using assms(2) nd by (simp add: takeWhile_tail)
  have dw: "dropWhile isDigit (ds @ CHR '')'' # rest) = CHR '')'' # rest"
    using assms(2) nd by (simp add: dropWhile_append3)
  show ?thesis
    using assms(1) tw dw by (simp add: contractErrorPattern_at_def)
qed

text \<open>And only there: what it captures is a run of digits between the two literals.\<close>

lemma contractErrorPattern_at_Some:
  assumes "contractErrorPattern_at t = Some ds"
  shows "ds \<noteq> [] \<and> list_all isDigit ds \<and> (\<exists>rest. t = ''Error(Contract, #'' @ ds @ '')'' @ rest)"
proof -
  from assms have p: "take 17 t = ''Error(Contract, #''"
    and ds: "ds = takeWhile isDigit (drop 17 t)" and ne: "ds \<noteq> []"
    and cl: "take 1 (dropWhile isDigit (drop 17 t)) = '')''"
    by (auto simp: contractErrorPattern_at_def Let_def split: if_splits)
  from cl obtain rest where r: "dropWhile isDigit (drop 17 t) = '')'' @ rest"
    by (cases "dropWhile isDigit (drop 17 t)") auto
  have "t = take 17 t @ drop 17 t" by simp
  also have "drop 17 t = takeWhile isDigit (drop 17 t) @ dropWhile isDigit (drop 17 t)" by simp
  finally have "t = ''Error(Contract, #'' @ ds @ '')'' @ rest"
    unfolding p r ds[symmetric] .
  moreover have "list_all isDigit ds"
    unfolding ds list_all_iff by (auto dest: set_takeWhileD)
  ultimately show ?thesis using ne by blast
qed

lemma contractErrorAt_iff:
  "contractErrorAt s n ds \<longleftrightarrow> contractErrorPattern_at (drop n s) = Some ds"
proof
  assume "contractErrorAt s n ds"
  then obtain rest where "ds \<noteq> []" "\<forall>c\<in>set ds. isDigit c"
    "drop n s = ''Error(Contract, #'' @ ds @ '')'' @ rest"
    by (auto simp: contractErrorAt_def list_all_iff isDigit_decimalDigit)
  with contractErrorPattern_at_head[of ds rest]
  show "contractErrorPattern_at (drop n s) = Some ds" by simp
next
  assume "contractErrorPattern_at (drop n s) = Some ds"
  from contractErrorPattern_at_Some[OF this]
  show "contractErrorAt s n ds"
    by (auto simp: contractErrorAt_def list_all_iff isDigit_decimalDigit)
qed

text \<open>\<open>match\<close> reports the leftmost position at which the pattern matches.\<close>

lemma contractErrorPattern_match_Some:
  "contractErrorPattern_match s = Some ds \<longleftrightarrow>
   (\<exists>n. contractErrorPattern_at (drop n s) = Some ds
      \<and> (\<forall>m<n. contractErrorPattern_at (drop m s) = None))"
proof (induction s)
  case Nil
  show ?case by (simp add: contractErrorPattern_at_def)
next
  case (Cons c cs)
  show ?case
  proof (cases "contractErrorPattern_at (c # cs)")
    case (Some ds0)
    have "(\<exists>n. contractErrorPattern_at (drop n (c # cs)) = Some ds
             \<and> (\<forall>m<n. contractErrorPattern_at (drop m (c # cs)) = None)) \<longleftrightarrow> ds0 = ds"
    proof
      assume "\<exists>n. contractErrorPattern_at (drop n (c # cs)) = Some ds
             \<and> (\<forall>m<n. contractErrorPattern_at (drop m (c # cs)) = None)"
      then obtain n where n: "contractErrorPattern_at (drop n (c # cs)) = Some ds"
        and l: "\<forall>m<n. contractErrorPattern_at (drop m (c # cs)) = None" by blast
      have "n = 0"
      proof (rule ccontr)
        assume "n \<noteq> 0"
        then have "0 < n" by simp
        with l have "contractErrorPattern_at (drop 0 (c # cs)) = None" by blast
        with Some show False by simp
      qed
      with n Some show "ds0 = ds" by simp
    next
      assume "ds0 = ds"
      with Some have "contractErrorPattern_at (drop 0 (c # cs)) = Some ds
          \<and> (\<forall>m<0. contractErrorPattern_at (drop m (c # cs)) = None)" by simp
      then show "\<exists>n. contractErrorPattern_at (drop n (c # cs)) = Some ds
             \<and> (\<forall>m<n. contractErrorPattern_at (drop m (c # cs)) = None)" by blast
    qed
    with Some show ?thesis by simp
  next
    case None
    have "(\<exists>n. contractErrorPattern_at (drop n (c # cs)) = Some ds
             \<and> (\<forall>m<n. contractErrorPattern_at (drop m (c # cs)) = None))
      \<longleftrightarrow> (\<exists>n. contractErrorPattern_at (drop n cs) = Some ds
             \<and> (\<forall>m<n. contractErrorPattern_at (drop m cs) = None))"
    proof
      assume "\<exists>n. contractErrorPattern_at (drop n (c # cs)) = Some ds
             \<and> (\<forall>m<n. contractErrorPattern_at (drop m (c # cs)) = None)"
      then obtain n where n: "contractErrorPattern_at (drop n (c # cs)) = Some ds"
        and l: "\<forall>m<n. contractErrorPattern_at (drop m (c # cs)) = None" by blast
      from n None obtain k where k: "n = Suc k" by (cases n) auto
      from n k have 1: "contractErrorPattern_at (drop k cs) = Some ds" by simp
      have 2: "\<forall>m<k. contractErrorPattern_at (drop m cs) = None"
      proof (intro allI impI)
        fix m assume "m < k"
        with k have "Suc m < n" by simp
        with l have "contractErrorPattern_at (drop (Suc m) (c # cs)) = None" by blast
        then show "contractErrorPattern_at (drop m cs) = None" by simp
      qed
      from 1 2 show "\<exists>n. contractErrorPattern_at (drop n cs) = Some ds
             \<and> (\<forall>m<n. contractErrorPattern_at (drop m cs) = None)" by blast
    next
      assume "\<exists>n. contractErrorPattern_at (drop n cs) = Some ds
             \<and> (\<forall>m<n. contractErrorPattern_at (drop m cs) = None)"
      then obtain k where 1: "contractErrorPattern_at (drop k cs) = Some ds"
        and 2: "\<forall>m<k. contractErrorPattern_at (drop m cs) = None" by blast
      have "\<forall>m<Suc k. contractErrorPattern_at (drop m (c # cs)) = None"
      proof (intro allI impI)
        fix m assume m: "m < Suc k"
        show "contractErrorPattern_at (drop m (c # cs)) = None"
        proof (cases m)
          case 0
          with None show ?thesis by simp
        next
          case (Suc j)
          with m 2 show ?thesis by simp
        qed
      qed
      moreover from 1 have "contractErrorPattern_at (drop (Suc k) (c # cs)) = Some ds" by simp
      ultimately show "\<exists>n. contractErrorPattern_at (drop n (c # cs)) = Some ds
             \<and> (\<forall>m<n. contractErrorPattern_at (drop m (c # cs)) = None)" by blast
    qed
    with None Cons.IH show ?thesis by simp
  qed
qed

lemma contractErrorPattern_match_None:
  "contractErrorPattern_match s = None \<longleftrightarrow> (\<forall>n. contractErrorPattern_at (drop n s) = None)"
proof (induction s)
  case Nil
  show ?case by (simp add: contractErrorPattern_at_def)
next
  case (Cons c cs)
  show ?case
  proof (cases "contractErrorPattern_at (c # cs)")
    case (Some ds0)
    have "\<not> (\<forall>n. contractErrorPattern_at (drop n (c # cs)) = None)"
    proof
      assume "\<forall>n. contractErrorPattern_at (drop n (c # cs)) = None"
      then have "contractErrorPattern_at (drop 0 (c # cs)) = None" by (rule spec)
      with Some show False by simp
    qed
    with Some show ?thesis by simp
  next
    case None
    have "(\<forall>n. contractErrorPattern_at (drop n (c # cs)) = None)
      \<longleftrightarrow> (\<forall>n. contractErrorPattern_at (drop n cs) = None)"
    proof
      assume a: "\<forall>n. contractErrorPattern_at (drop n (c # cs)) = None"
      show "\<forall>n. contractErrorPattern_at (drop n cs) = None"
      proof
        fix n
        from a have "contractErrorPattern_at (drop (Suc n) (c # cs)) = None" by blast
        then show "contractErrorPattern_at (drop n cs) = None" by simp
      qed
    next
      assume a: "\<forall>n. contractErrorPattern_at (drop n cs) = None"
      show "\<forall>n. contractErrorPattern_at (drop n (c # cs)) = None"
      proof
        fix n
        show "contractErrorPattern_at (drop n (c # cs)) = None"
          using None a by (cases n) simp_all
      qed
    qed
    with None Cons.IH show ?thesis by simp
  qed
qed

text \<open>
  So \<open>match\<close> answers with the digits of the first contract error that the string
  holds, and with nothing exactly when it holds none.
\<close>

lemma firstContractError_iff:
  "firstContractError s ds \<longleftrightarrow> contractErrorPattern_match s = Some ds"
proof -
  have "(\<not> (\<exists>m ds'. m < n \<and> contractErrorPattern_at (drop m s) = Some ds'))
        \<longleftrightarrow> (\<forall>m<n. contractErrorPattern_at (drop m s) = None)" for n
    by auto
  then show ?thesis
    unfolding firstContractError_def contractErrorAt_iff contractErrorPattern_match_Some
    by simp
qed

lemma noContractError_iff:
  "noContractError s \<longleftrightarrow> contractErrorPattern_match s = None"
  unfolding noContractError_def contractErrorAt_iff contractErrorPattern_match_None
  by auto

lemma firstContractError_digits:
  assumes "firstContractError s ds"
  shows "ds \<noteq> [] \<and> list_all isDigit ds"
proof -
  from assms obtain n where "contractErrorAt s n ds"
    by (auto simp: firstContractError_def)
  then show ?thesis
    by (auto simp: contractErrorAt_def list_all_iff isDigit_decimalDigit)
qed

subsection \<open>The catch block\<close>

lemma result_of_thrown:
  assumes "simulationData this = (Inl e, this1)
           \<or> (\<exists>d. simulationData this = (Inr d, this1)
                 \<and> parseResultXdr (options this) (retval (result d)) = Inl e)"
  shows "AssembledTransaction_result deps this = result_catch deps this1 e
         \<and> options this1 = options this"
proof -
  from assms obtain r where r: "simulationData this = (r, this1)" by auto
  from simulationData_frame[OF r] have o: "options this1 = options this" by simp
  from assms o show ?thesis by (auto simp: AssembledTransaction_result_def)
qed

lemma result_catch_first:
  assumes "implementsToString e" and "errorTypes (options this) = Some types"
    and "firstContractError (toString e) ds"
  shows "result_catch deps this e =
    (case (if decimal ds < 2 ^ 53 then Some (decimal ds)
           else integerToNumber deps (decimal ds)) of
       None \<Rightarrow> (Inl e, this)
     | Some k \<Rightarrow> (case types k of None \<Rightarrow> (Inl e, this)
                                | Some message' \<Rightarrow> (Inr (Err message'), this)))"
proof -
  from firstContractError_digits[OF assms(3)]
  have p: "parseInt deps ds =
    (if decimal ds < 2 ^ 53 then Some (decimal ds) else integerToNumber deps (decimal ds))"
    by (simp add: parseInt_digits)
  from assms(3) have m: "contractErrorPattern_match (toString e) = Some ds"
    by (simp add: firstContractError_iff)
  show ?thesis
    unfolding result_catch_def parseError_def
    using assms(1,2) m p by (simp split: option.splits)
qed

text \<open>
  C6. Let \<open>e\<close> be what is thrown inside the \<open>try\<close> of \<open>result\<close>, by the simulation data or
  by \<open>parseResultXdr\<close>, and let \<open>ds\<close> be the digits of the first \<open>Error(Contract, #ds)\<close>
  that the string of \<open>e\<close> holds, denoting the code \<open>decimal ds\<close>.

  \<^item> If \<open>e\<close> carries a \<open>toString\<close>, the code is below \<open>2^53\<close> and \<open>options.errorTypes\<close>
    registers a message for it, then \<open>result\<close> returns \<open>Err\<close> of that message and does
    not throw.
  \<^item> If \<open>e\<close> carries no \<open>toString\<close>, or there are no \<open>errorTypes\<close>, or the string holds no
    contract error, or the code is below \<open>2^53\<close> and not registered, then \<open>e\<close> is thrown
    again.
  \<^item> A code of \<open>2^53\<close> or more is looked up as the double that \<open>parseInt\<close> makes of it.
\<close>

theorem result_maps_contract_errors:
  assumes "simulationData this = (Inl e, this1)
           \<or> (\<exists>d. simulationData this = (Inr d, this1)
                 \<and> parseResultXdr (options this) (retval (result d)) = Inl e)"
  shows "(implementsToString e \<and> errorTypes (options this) = Some types
          \<and> firstContractError (toString e) ds
          \<and> decimal ds < 2 ^ 53 \<and> types (decimal ds) = Some message' \<longrightarrow>
            AssembledTransaction_result deps this = (Inr (Err message'), this1))
       \<and> (\<not> implementsToString e \<or> errorTypes (options this) = None
          \<or> noContractError (toString e)
          \<or> (errorTypes (options this) = Some types \<and> firstContractError (toString e) ds
             \<and> decimal ds < 2 ^ 53 \<and> types (decimal ds) = None) \<longrightarrow>
            AssembledTransaction_result deps this = (Inl e, this1))
       \<and> (implementsToString e \<and> errorTypes (options this) = Some types
          \<and> firstContractError (toString e) ds \<and> 2 ^ 53 \<le> decimal ds \<longrightarrow>
            AssembledTransaction_result deps this =
              (case integerToNumber deps (decimal ds) of
                 None \<Rightarrow> (Inl e, this1)
               | Some k \<Rightarrow> (case types k of
                             None \<Rightarrow> (Inl e, this1)
                           | Some registered \<Rightarrow> (Inr (Err registered), this1))))"
proof -
  from result_of_thrown[OF assms]
  have r: "AssembledTransaction_result deps this = result_catch deps this1 e"
    and o: "options this1 = options this" by simp_all
  have first: "implementsToString e \<Longrightarrow> errorTypes (options this) = Some types
      \<Longrightarrow> firstContractError (toString e) ds
      \<Longrightarrow> result_catch deps this1 e =
        (case (if decimal ds < 2 ^ 53 then Some (decimal ds)
               else integerToNumber deps (decimal ds)) of
           None \<Rightarrow> (Inl e, this1)
         | Some k \<Rightarrow> (case types k of None \<Rightarrow> (Inl e, this1)
                                    | Some registered \<Rightarrow> (Inr (Err registered), this1)))"
    using result_catch_first[where this = this1 and e = e and types = types and ds = ds
        and deps = deps] o by simp
  have 1: "implementsToString e \<and> errorTypes (options this) = Some types
          \<and> firstContractError (toString e) ds
          \<and> decimal ds < 2 ^ 53 \<and> types (decimal ds) = Some message' \<longrightarrow>
            AssembledTransaction_result deps this = (Inr (Err message'), this1)"
    using first r by simp
  have none: "\<not> implementsToString e \<or> errorTypes (options this) = None
          \<or> noContractError (toString e) \<Longrightarrow> result_catch deps this1 e = (Inl e, this1)"
    unfolding result_catch_def parseError_def o noContractError_iff
    by (auto split: option.splits)
  have unregistered: "errorTypes (options this) = Some types
      \<Longrightarrow> firstContractError (toString e) ds
      \<Longrightarrow> decimal ds < 2 ^ 53 \<Longrightarrow> types (decimal ds) = None
      \<Longrightarrow> result_catch deps this1 e = (Inl e, this1)"
  proof (cases "implementsToString e")
    case True
    assume "errorTypes (options this) = Some types" "firstContractError (toString e) ds"
      "decimal ds < 2 ^ 53" "types (decimal ds) = None"
    with first True show ?thesis by simp
  next
    case False
    then show ?thesis by (simp add: result_catch_def)
  qed
  have 2: "\<not> implementsToString e \<or> errorTypes (options this) = None
          \<or> noContractError (toString e)
          \<or> (errorTypes (options this) = Some types \<and> firstContractError (toString e) ds
             \<and> decimal ds < 2 ^ 53 \<and> types (decimal ds) = None) \<longrightarrow>
            AssembledTransaction_result deps this = (Inl e, this1)"
  proof
    assume "\<not> implementsToString e \<or> errorTypes (options this) = None
          \<or> noContractError (toString e)
          \<or> (errorTypes (options this) = Some types \<and> firstContractError (toString e) ds
             \<and> decimal ds < 2 ^ 53 \<and> types (decimal ds) = None)"
    then consider
        (absent) "\<not> implementsToString e \<or> errorTypes (options this) = None
                  \<or> noContractError (toString e)"
      | (other) "errorTypes (options this) = Some types" "firstContractError (toString e) ds"
                "decimal ds < 2 ^ 53" "types (decimal ds) = None"
      by (elim disjE conjE) simp_all
    then have "result_catch deps this1 e = (Inl e, this1)"
    proof cases
      case absent
      then show ?thesis by (rule none)
    next
      case other
      then show ?thesis by (rule unregistered)
    qed
    with r show "AssembledTransaction_result deps this = (Inl e, this1)" by simp
  qed
  have 3: "implementsToString e \<and> errorTypes (options this) = Some types
          \<and> firstContractError (toString e) ds \<and> 2 ^ 53 \<le> decimal ds \<longrightarrow>
            AssembledTransaction_result deps this =
              (case integerToNumber deps (decimal ds) of
                 None \<Rightarrow> (Inl e, this1)
               | Some k \<Rightarrow> (case types k of
                             None \<Rightarrow> (Inl e, this1)
                           | Some registered \<Rightarrow> (Inr (Err registered), this1)))"
    using first r by simp
  from 1 2 3 show ?thesis by blast
qed

text \<open>
  The first contract error of four strings, the numbers the digits denote, and the
  double nearest to \<open>2^53 + 1\<close>.
\<close>

lemma example_pattern:
  "firstContractError ''HostError: Error(Contract, #3)'' ''3''"
  "firstContractError
     ''Error: Transaction simulation failed: \"HostError: Error(Contract, #3)\"'' ''3''"
  "firstContractError ''Error(Contract, #4)'' ''4''"
  "firstContractError ''Error(Contract, #9007199254740993)'' ''9007199254740993''"
  "noContractError ''TypeError: invalid type''"
  unfolding firstContractError_iff noContractError_iff by code_simp+

lemma example_decimal:
  "decimal ''3'' = 3" "decimal ''4'' = 4" "decimal ''9007199254740993'' = 9007199254740993"
  by (simp_all add: decimal_def decimalDigit_def)

lemma example_nearestDouble:
  "nearestDouble 9007199254740993 = Some 9007199254740992"
proof -
  have "bitLength 9007199254740993 = 54" by simp
  then show ?thesis by (simp add: nearestDouble_def Let_def)
qed

theorem result_maps_contract_errors_witness:
  "AssembledTransaction_result example_deps (example_simulated [] (ScvOther ''trap'') []) =
     (Inr (Err ''insufficient''),
      (example_simulated [] (ScvOther ''trap'') [])
        \<lparr>simulationResult := Some \<lparr>auth = [], retval = ScvOther ''trap''\<rparr>,
         simulationTransactionData := Some (example_data [])\<rparr>)
   \<and> AssembledTransaction_result example_deps example_failed_simulation =
     (Inr (Err ''insufficient''), example_failed_simulation)
   \<and> AssembledTransaction_result example_deps (example_simulated [] (ScvOther ''bad'') []) =
     (Inl (JsError TypeErrorC ''invalid type''),
      (example_simulated [] (ScvOther ''bad'') [])
        \<lparr>simulationResult := Some \<lparr>auth = [], retval = ScvOther ''bad''\<rparr>,
         simulationTransactionData := Some (example_data [])\<rparr>)
   \<and> AssembledTransaction_result example_deps
       (example_simulated [] (ScvOther ''unregistered'') []) =
     (Inl (ThrownObject ''Error(Contract, #4)''),
      (example_simulated [] (ScvOther ''unregistered'') [])
        \<lparr>simulationResult := Some \<lparr>auth = [], retval = ScvOther ''unregistered''\<rparr>,
         simulationTransactionData := Some (example_data [])\<rparr>)
   \<and> AssembledTransaction_result example_deps
       (example_simulated [] (ScvOther ''primitive'') []) =
     (Inl ThrownPrimitive,
      (example_simulated [] (ScvOther ''primitive'') [])
        \<lparr>simulationResult := Some \<lparr>auth = [], retval = ScvOther ''primitive''\<rparr>,
         simulationTransactionData := Some (example_data [])\<rparr>)
   \<and> AssembledTransaction_result example_deps (example_simulated [] (ScvOther ''huge'') []) =
     (Inr (Err ''rounded''),
      (example_simulated [] (ScvOther ''huge'') [])
        \<lparr>simulationResult := Some \<lparr>auth = [], retval = ScvOther ''huge''\<rparr>,
         simulationTransactionData := Some (example_data [])\<rparr>)"
proof -
  let ?types = "[3 \<mapsto> ''insufficient'', 9007199254740992 \<mapsto> ''rounded'']
                  :: nat \<Rightarrow> string option"
  have types: "errorTypes (options (example_simulated [] v [])) = Some ?types"
    "errorTypes (options example_failed_simulation) = Some ?types" for v
    by (simp_all add: example_simulated_def example_failed_simulation_def example_options_def)
  have parse:
    "parseResultXdr (options (example_simulated [] (ScvOther ''trap'') []))
       (ScvOther ''trap'') = Inl (ThrownObject ''HostError: Error(Contract, #3)'')"
    "parseResultXdr (options (example_simulated [] (ScvOther ''bad'') []))
       (ScvOther ''bad'') = Inl (JsError TypeErrorC ''invalid type'')"
    "parseResultXdr (options (example_simulated [] (ScvOther ''unregistered'') []))
       (ScvOther ''unregistered'') = Inl (ThrownObject ''Error(Contract, #4)'')"
    "parseResultXdr (options (example_simulated [] (ScvOther ''primitive'') []))
       (ScvOther ''primitive'') = Inl ThrownPrimitive"
    "parseResultXdr (options (example_simulated [] (ScvOther ''huge'') []))
       (ScvOther ''huge'') = Inl (ThrownObject ''Error(Contract, #9007199254740993)'')"
    by (simp_all add: example_simulated_def example_options_def)
  have failed: "simulationData example_failed_simulation =
      (Inl (JsError ErrorC
         ''Transaction simulation failed: \"HostError: Error(Contract, #3)\"''),
       example_failed_simulation)"
    by (simp add: simulationData_def example_failed_simulation_def)
  have number: "integerToNumber example_deps = nearestDouble"
    by (simp add: example_deps_def)
  have first: "AssembledTransaction_result example_deps
        (example_simulated [] (ScvOther ''trap'') []) =
     (Inr (Err ''insufficient''),
      (example_simulated [] (ScvOther ''trap'') [])
        \<lparr>simulationResult := Some \<lparr>auth = [], retval = ScvOther ''trap''\<rparr>,
         simulationTransactionData := Some (example_data [])\<rparr>)"
    using result_maps_contract_errors[where this = "example_simulated [] (ScvOther ''trap'') []"
        and e = "ThrownObject ''HostError: Error(Contract, #3)''"
        and types = ?types and ds = "''3''" and message' = "''insufficient''"
        and deps = example_deps]
      example_simulationData[of "[]" "ScvOther ''trap''" "[]"] parse types example_pattern
      example_decimal
    by simp
  have second: "AssembledTransaction_result example_deps example_failed_simulation =
     (Inr (Err ''insufficient''), example_failed_simulation)"
    using result_maps_contract_errors[where this = example_failed_simulation
        and e = "JsError ErrorC
           ''Transaction simulation failed: \"HostError: Error(Contract, #3)\"''"
        and types = ?types and ds = "''3''" and message' = "''insufficient''"
        and deps = example_deps]
      failed types example_pattern example_decimal
    by simp
  have third: "AssembledTransaction_result example_deps
        (example_simulated [] (ScvOther ''bad'') []) =
     (Inl (JsError TypeErrorC ''invalid type''),
      (example_simulated [] (ScvOther ''bad'') [])
        \<lparr>simulationResult := Some \<lparr>auth = [], retval = ScvOther ''bad''\<rparr>,
         simulationTransactionData := Some (example_data [])\<rparr>)"
    using result_maps_contract_errors[where this = "example_simulated [] (ScvOther ''bad'') []"
        and e = "JsError TypeErrorC ''invalid type''" and deps = example_deps]
      example_simulationData[of "[]" "ScvOther ''bad''" "[]"] parse example_pattern
    by simp
  have fourth: "AssembledTransaction_result example_deps
        (example_simulated [] (ScvOther ''unregistered'') []) =
     (Inl (ThrownObject ''Error(Contract, #4)''),
      (example_simulated [] (ScvOther ''unregistered'') [])
        \<lparr>simulationResult := Some \<lparr>auth = [], retval = ScvOther ''unregistered''\<rparr>,
         simulationTransactionData := Some (example_data [])\<rparr>)"
    using result_maps_contract_errors[
        where this = "example_simulated [] (ScvOther ''unregistered'') []"
        and e = "ThrownObject ''Error(Contract, #4)''"
        and types = ?types and ds = "''4''" and deps = example_deps]
      example_simulationData[of "[]" "ScvOther ''unregistered''" "[]"] parse types
      example_pattern example_decimal
    by simp
  have fifth: "AssembledTransaction_result example_deps
        (example_simulated [] (ScvOther ''primitive'') []) =
     (Inl ThrownPrimitive,
      (example_simulated [] (ScvOther ''primitive'') [])
        \<lparr>simulationResult := Some \<lparr>auth = [], retval = ScvOther ''primitive''\<rparr>,
         simulationTransactionData := Some (example_data [])\<rparr>)"
    using result_maps_contract_errors[
        where this = "example_simulated [] (ScvOther ''primitive'') []"
        and e = ThrownPrimitive and deps = example_deps]
      example_simulationData[of "[]" "ScvOther ''primitive''" "[]"] parse
    by simp
  have sixth: "AssembledTransaction_result example_deps
        (example_simulated [] (ScvOther ''huge'') []) =
     (Inr (Err ''rounded''),
      (example_simulated [] (ScvOther ''huge'') [])
        \<lparr>simulationResult := Some \<lparr>auth = [], retval = ScvOther ''huge''\<rparr>,
         simulationTransactionData := Some (example_data [])\<rparr>)"
    using result_maps_contract_errors[where this = "example_simulated [] (ScvOther ''huge'') []"
        and e = "ThrownObject ''Error(Contract, #9007199254740993)''"
        and types = ?types and ds = "''9007199254740993''" and deps = example_deps]
      example_simulationData[of "[]" "ScvOther ''huge''" "[]"] parse types
      example_pattern example_decimal number example_nearestDouble
    by simp
  from first second third fourth fifth sixth show ?thesis by simp
qed

section \<open>Polling\<close>

subsection \<open>The backoff schedule\<close>

lemma attemptTime_before_deadline:
  assumes "attemptTime start timeout i < start + timeout"
  shows "2 ^ i \<le> timeout"
proof -
  obtain k where "(2::nat) ^ i = Suc k"
    using not0_implies_Suc[of "(2::nat) ^ i"] by auto
  with assms show ?thesis by (auto simp: attemptTime_def min_def split: if_splits)
qed

lemma attemptTime_at_deadline:
  assumes "\<not> attemptTime start timeout i < start + timeout"
  shows "timeout < 2 ^ i"
proof -
  obtain k where "(2::nat) ^ i = Suc k"
    using not0_implies_Suc[of "(2::nat) ^ i"] by auto
  with assms show ?thesis by (auto simp: attemptTime_def min_def split: if_splits)
qed

lemma attemptTime_Suc:
  assumes "attemptTime start timeout i < start + timeout"
  shows "attemptTime start timeout i
           + min (2 ^ i) (start + timeout - attemptTime start timeout i)
         = attemptTime start timeout (Suc i)"
proof -
  obtain k where "(2::nat) ^ i = Suc k"
    using not0_implies_Suc[of "(2::nat) ^ i"] by auto
  with assms show ?thesis by (auto simp: attemptTime_def min_def split: if_splits)
qed

lemma attemptTime_within:
  "start \<le> attemptTime start timeout i \<and> attemptTime start timeout i \<le> start + timeout"
proof -
  obtain k where "(2::nat) ^ i = Suc k"
    using not0_implies_Suc[of "(2::nat) ^ i"] by auto
  then show ?thesis by (auto simp: attemptTime_def min_def)
qed

text \<open>
  While every attempt answers and asks to keep waiting, the loop makes attempt \<open>j\<close> at the
  time the schedule gives, and stops with the first attempt made at the deadline.
\<close>

lemma withExponentialBackoff_loop_schedule:
  assumes "\<forall>j. \<exists>r. fn (attemptTime start timeout j) = Inr r \<and> keepWaitingIf r"
    and "deadline = start + timeout"
    and "now = attemptTime start timeout i"
    and "length attempts = Suc i"
    and "\<forall>j\<le>i. fn (attemptTime start timeout j) = Inr (attempts ! j)"
    and "\<forall>j<i. 2 ^ j \<le> timeout"
    and "keepWaitingIf lastAttempt"
  shows "\<exists>all n. withExponentialBackoff_loop fn keepWaitingIf deadline i now attempts lastAttempt
                 = Inr all
           \<and> length all = Suc n \<and> timeout < 2 ^ n \<and> (\<forall>j<n. 2 ^ j \<le> timeout)
           \<and> (\<forall>j\<le>n. fn (attemptTime start timeout j) = Inr (all ! j))"
  using assms
proof (induction fn keepWaitingIf deadline i now attempts lastAttempt
       rule: withExponentialBackoff_loop.induct)
  case (1 fn keepWaitingIf deadline i now attempts lastAttempt)
  show ?case
  proof (cases "now < deadline")
    case False
    with "1.prems"(2,3) have "timeout < 2 ^ i"
      using attemptTime_at_deadline[of start timeout i] by simp
    moreover from False
    have "withExponentialBackoff_loop fn keepWaitingIf deadline i now attempts lastAttempt
          = Inr attempts" by simp
    ultimately show ?thesis using "1.prems"(4,5,6) by blast
  next
    case True
    with "1.prems"(7) have go: "keepWaitingIf lastAttempt \<and> now < deadline" by simp
    from True "1.prems"(2,3)
    have before: "attemptTime start timeout i < start + timeout" by simp
    define now' where "now' = now + min (2 ^ i) (deadline - now)"
    have now': "now' = attemptTime start timeout (Suc i)"
      unfolding now'_def "1.prems"(2,3) by (rule attemptTime_Suc[OF before])
    from "1.prems"(1) obtain r where r: "fn now' = Inr r" "keepWaitingIf r"
      unfolding now' by blast
    have "\<exists>all n. withExponentialBackoff_loop fn keepWaitingIf deadline (i + 1) now'
                    (attempts @ [r]) r = Inr all
           \<and> length all = Suc n \<and> timeout < 2 ^ n \<and> (\<forall>j<n. 2 ^ j \<le> timeout)
           \<and> (\<forall>j\<le>n. fn (attemptTime start timeout j) = Inr (all ! j))"
    proof (rule "1.IH"[OF go now'_def r(1)])
      show "\<forall>j. \<exists>r. fn (attemptTime start timeout j) = Inr r \<and> keepWaitingIf r"
        by (rule "1.prems"(1))
      show "deadline = start + timeout" by (rule "1.prems"(2))
      show "now' = attemptTime start timeout (i + 1)" using now' by simp
      show "length (attempts @ [r]) = Suc (i + 1)" using "1.prems"(4) by simp
      show "\<forall>j\<le>i + 1. fn (attemptTime start timeout j) = Inr ((attempts @ [r]) ! j)"
      proof (intro allI impI)
        fix j assume j: "j \<le> i + 1"
        show "fn (attemptTime start timeout j) = Inr ((attempts @ [r]) ! j)"
        proof (cases "j \<le> i")
          case True
          with "1.prems"(4,5) show ?thesis by (simp add: nth_append)
        next
          case False
          with j have "j = Suc i" by simp
          with "1.prems"(4) r(1) now' show ?thesis by (simp add: nth_append)
        qed
      qed
      show "\<forall>j<i + 1. 2 ^ j \<le> timeout"
      proof (intro allI impI)
        fix j assume j: "j < i + 1"
        show "2 ^ j \<le> timeout"
        proof (cases "j < i")
          case True
          with "1.prems"(6) show ?thesis by simp
        next
          case False
          with j have "j = i" by simp
          with attemptTime_before_deadline[OF before] show ?thesis by simp
        qed
      qed
      show "keepWaitingIf r" by (rule r(2))
    qed
    moreover have "withExponentialBackoff_loop fn keepWaitingIf deadline i now attempts
                     lastAttempt
        = withExponentialBackoff_loop fn keepWaitingIf deadline (i + 1) now' (attempts @ [r]) r"
      using go r(1) by (simp add: now'_def Let_def)
    ultimately show ?thesis by simp
  qed
qed

lemma withExponentialBackoff_schedule:
  assumes "\<forall>t. start \<le> t \<and> t \<le> start + timeout \<longrightarrow> (\<exists>r. fn t = Inr r \<and> keepWaitingIf r)"
  shows "\<exists>all n. withExponentialBackoff fn keepWaitingIf timeout start = Inr all
           \<and> length all = Suc n \<and> timeout < 2 ^ n \<and> (\<forall>j<n. 2 ^ j \<le> timeout)
           \<and> (\<forall>j\<le>n. fn (attemptTime start timeout j) = Inr (all ! j))"
proof -
  have every: "\<forall>j. \<exists>r. fn (attemptTime start timeout j) = Inr r \<and> keepWaitingIf r"
    using assms attemptTime_within[of start timeout] by blast
  have zero: "attemptTime start timeout 0 = start" by (simp add: attemptTime_def)
  from every zero obtain r where r: "fn start = Inr r" "keepWaitingIf r" by metis
  have "\<exists>all n. withExponentialBackoff_loop fn keepWaitingIf (start + timeout) 0 start [r] r
                 = Inr all
           \<and> length all = Suc n \<and> timeout < 2 ^ n \<and> (\<forall>j<n. 2 ^ j \<le> timeout)
           \<and> (\<forall>j\<le>n. fn (attemptTime start timeout j) = Inr (all ! j))"
  proof (rule withExponentialBackoff_loop_schedule[OF every])
    show "start + timeout = start + timeout" by simp
    show "start = attemptTime start timeout 0" using zero by simp
    show "length [r] = Suc 0" by simp
    show "\<forall>j\<le>0. fn (attemptTime start timeout j) = Inr ([r] ! j)" using zero r(1) by simp
    show "\<forall>j<0. (2::nat) ^ j \<le> timeout" by simp
    show "keepWaitingIf r" by (rule r(2))
  qed
  with r(1) show ?thesis by (simp add: withExponentialBackoff_def)
qed

lemma attempts_by_index:
  assumes "length all = Suc n" and "\<forall>j\<le>n. g j = Inr (all ! j)"
  shows "all = map (\<lambda>j. projr (g j)) [0..<Suc n]"
  using assms by (intro nth_equalityI) (auto simp: less_Suc_eq_le simp del: upt_Suc)

subsection \<open>send\<close>

text \<open>
  C7. Let the first half of \<open>send\<close> have gone through, leaving the object \<open>this1\<close>, and the
  submission have answered \<open>PENDING\<close>. Let \<open>timeout\<close> be \<open>options.timeoutInSeconds\<close>, or
  \<open>DEFAULT_TIMEOUT\<close> when that is not set, and let every \<open>getTransaction\<close> of the hash from
  \<open>start\<close> to \<open>start + timeout\<close> answer \<open>NOT_FOUND\<close>. Then \<open>send\<close> fails with
  \<open>TransactionStillPending\<close>. The object it leaves is \<open>this1\<close> with two fields set:
  \<open>getTransactionResponseAll\<close> holds the answers of the server to the polls, in order,
  one for each attempt of the schedule up to the first made at the deadline (at least
  one, all of them \<open>NOT_FOUND\<close>), and \<open>getTransactionResponse\<close> holds the last of them.
\<close>

theorem send_still_pending:
  assumes submit: "send_submit deps updateTimeout now this = (Inr (), this1)"
    and resp: "sendTransactionResponse this1 = Some resp"
    and pending: "send_status resp = ''PENDING''"
    and timeout: "timeout = (case timeoutInSeconds (options (assembled this1)) of
                               None \<Rightarrow> DEFAULT_TIMEOUT deps
                             | Some seconds \<Rightarrow> seconds)"
    and polls: "\<forall>t. start \<le> t \<and> t \<le> start + timeout \<longrightarrow>
                  (\<exists>r. getTransaction (sent_server this1) (hash resp) t = Inr r
                     \<and> status r = NOT_FOUND)"
  shows "\<exists>message' all n this2.
      send deps updateTimeout now start this
        = (Inl (JsError TransactionStillPendingError message'), this2)
    \<and> this2 = this1\<lparr>getTransactionResponseAll := Some all,
                     getTransactionResponse := Some (last all)\<rparr>
    \<and> getTransactionResponseAll this2 = Some all
    \<and> getTransactionResponse this2 = Some (last all)
    \<and> all \<noteq> []
    \<and> length all = Suc n \<and> timeout < 2 ^ n \<and> (\<forall>j<n. 2 ^ j \<le> timeout)
    \<and> (\<forall>j\<le>n. getTransaction (sent_server this1) (hash resp) (attemptTime start timeout j)
                = Inr (all ! j))
    \<and> (\<forall>r\<in>set all. status r = NOT_FOUND)"
proof -
  from withExponentialBackoff_schedule[OF polls]
  obtain all n where run:
    "withExponentialBackoff (getTransaction (sent_server this1) (hash resp))
       (\<lambda>resp'. status resp' = NOT_FOUND) timeout start = Inr all"
    and len: "length all = Suc n" and stop: "timeout < 2 ^ n"
    and before: "\<forall>j<n. 2 ^ j \<le> timeout"
    and answers: "\<forall>j\<le>n. getTransaction (sent_server this1) (hash resp)
                          (attemptTime start timeout j) = Inr (all ! j)"
    by blast
  have pendings: "\<forall>r\<in>set all. status r = NOT_FOUND"
  proof
    fix r assume "r \<in> set all"
    then obtain j where j: "j < length all" "r = all ! j" by (auto simp: in_set_conv_nth)
    with len have "j \<le> n" by simp
    with answers have a: "getTransaction (sent_server this1) (hash resp)
                          (attemptTime start timeout j) = Inr (all ! j)" by blast
    from polls attemptTime_within[of start timeout j]
    obtain r' where "getTransaction (sent_server this1) (hash resp)
                          (attemptTime start timeout j) = Inr r'" "status r' = NOT_FOUND"
      by blast
    with a j show "status r = NOT_FOUND" by simp
  qed
  from len obtain x xs where cons: "all = x # xs" by (cases all) auto
  then have ne: "all \<noteq> []" by simp
  with pendings have last: "status (last all) = NOT_FOUND" by simp
  define this2 where "this2 = this1\<lparr>getTransactionResponseAll := Some all,
                                   getTransactionResponse := Some (last all)\<rparr>"
  have t: "timeoutOf deps (options (assembled this1)) = timeout"
    by (simp add: timeoutOf_def timeout)
  have "send_poll deps start this1
        = (Inl (JsError TransactionStillPendingError ''Waited ''), this2)"
    unfolding send_poll_def Let_def t
    using resp pending run last cons by (simp add: this2_def)
  with submit have "send deps updateTimeout now start this
        = (Inl (JsError TransactionStillPendingError ''Waited ''), this2)"
    by (simp add: send_def)
  moreover have "getTransactionResponseAll this2 = Some all"
    "getTransactionResponse this2 = Some (last all)"
    by (simp_all add: this2_def)
  ultimately show ?thesis using this2_def ne len stop before answers pendings by blast
qed

text \<open>
  A simulated write call sent at clock 1000 to a server on which the transaction stays
  unknown, polled from clock 1001 on with the timeout of 45 seconds of the options.
\<close>

lemma example_send_submit:
  "fst (send_submit example_deps True 1000 example_sent) = Inr ()
   \<and> sendTransactionResponse (snd (send_submit example_deps True 1000 example_sent))
       = Some \<lparr>send_status = ''PENDING'', hash = ''h1''\<rparr>
   \<and> options (assembled (snd (send_submit example_deps True 1000 example_sent)))
       = example_options
   \<and> sent_server (snd (send_submit example_deps True 1000 example_sent)) = example_server
   \<and> getTransactionResponseAll (snd (send_submit example_deps True 1000 example_sent)) = None
   \<and> getTransactionResponse (snd (send_submit example_deps True 1000 example_sent)) = None"
proof -
  let ?A = "example_simulated [example_source_entry] ScvVoid [''k1'']"
  have a: "assembled example_sent = ?A" "sent_signTransaction example_sent = Some example_signer"
    "sent_server example_sent = example_server"
    "getTransactionResponseAll example_sent = None" "getTransactionResponse example_sent = None"
    by (simp_all add: example_sent_def)
  have b: "built ?A = Some (TransactionTx (example_transaction [example_source_entry]))"
    "options ?A = example_options"
    by (simp_all add: example_simulated_def)
  have x: "SorobanTransactionData_fromXDR example_deps
             (SorobanTransactionData_toXDR example_deps (example_data [''k1'']))
           = Inr \<lparr>resources = \<lparr>footprint = \<lparr>readOnly = [], readWrite = [''k1'']\<rparr>,
                                instructions = 0\<rparr>, resourceFee = 0\<rparr>"
    by (simp add: example_deps_def example_data_def)
  have f: "TransactionBuilder_fromXDR example_deps s p = Inr
      (if take 3 s = ''fb:'' then FeeBumpTransaction (drop 3 s)
       else TransactionTx \<lparr>source = [], sequence = 0, fee = drop 3 s, timeBounds = None,
                             operations = [], sorobanData = None\<rparr>)" for s p
    by (simp add: example_deps_def)
  have s: "sendTransaction example_server s = Inr \<lparr>send_status = ''PENDING'', hash = ''h1''\<rparr>"
    for s
    by (simp add: example_server_def)
  show ?thesis
    by (simp add: send_submit_def Let_def a b example_simulationData x refreshed_def
          example_signer_def f s)
qed

theorem send_still_pending_witness:
  "\<exists>message'.
      send example_deps True 1000 1001 example_sent
        = (Inl (JsError TransactionStillPendingError message'),
           (snd (send_submit example_deps True 1000 example_sent))
             \<lparr>getTransactionResponseAll := Some
                [\<lparr>status = NOT_FOUND, returnValue = None, latestLedger = 1001\<rparr>,
                 \<lparr>status = NOT_FOUND, returnValue = None, latestLedger = 1002\<rparr>,
                 \<lparr>status = NOT_FOUND, returnValue = None, latestLedger = 1004\<rparr>,
                 \<lparr>status = NOT_FOUND, returnValue = None, latestLedger = 1008\<rparr>,
                 \<lparr>status = NOT_FOUND, returnValue = None, latestLedger = 1016\<rparr>,
                 \<lparr>status = NOT_FOUND, returnValue = None, latestLedger = 1032\<rparr>,
                 \<lparr>status = NOT_FOUND, returnValue = None, latestLedger = 1046\<rparr>],
              getTransactionResponse := Some
                \<lparr>status = NOT_FOUND, returnValue = None, latestLedger = 1046\<rparr>\<rparr>)
    \<and> sendTransactionResponse (snd (send_submit example_deps True 1000 example_sent))
        = Some \<lparr>send_status = ''PENDING'', hash = ''h1''\<rparr>
    \<and> getTransactionResponseAll (snd (send_submit example_deps True 1000 example_sent)) = None"
proof -
  let ?sent = "snd (send_submit example_deps True 1000 example_sent)"
  have run: "send_submit example_deps True 1000 example_sent = (Inr (), ?sent)"
    using example_send_submit by (simp add: prod_eq_iff)
  have resp: "sendTransactionResponse ?sent = Some \<lparr>send_status = ''PENDING'', hash = ''h1''\<rparr>"
    using example_send_submit by simp
  have pending: "send_status \<lparr>send_status = ''PENDING'', hash = ''h1''\<rparr> = ''PENDING''"
    by simp
  have timeout: "(45::nat) = (case timeoutInSeconds (options (assembled ?sent)) of
                         None \<Rightarrow> DEFAULT_TIMEOUT example_deps
                       | Some seconds \<Rightarrow> seconds)"
    using example_send_submit by (simp add: example_options_def)
  have answer: "getTransaction (sent_server ?sent)
                  (hash \<lparr>send_status = ''PENDING'', hash = ''h1''\<rparr>) t
                = Inr \<lparr>status = NOT_FOUND, returnValue = None, latestLedger = t\<rparr>" for t
    using example_send_submit by (simp add: example_server_def)
  have polls: "\<forall>t. 1001 \<le> t \<and> t \<le> 1001 + 45 \<longrightarrow>
      (\<exists>r. getTransaction (sent_server ?sent)
              (hash \<lparr>send_status = ''PENDING'', hash = ''h1''\<rparr>) t = Inr r
          \<and> status r = NOT_FOUND)"
    unfolding answer by simp
  from send_still_pending[OF run resp pending timeout polls]
  obtain message' all n where
      sent: "send example_deps True 1000 1001 example_sent
        = (Inl (JsError TransactionStillPendingError message'),
           ?sent\<lparr>getTransactionResponseAll := Some all,
                  getTransactionResponse := Some (last all)\<rparr>)"
    and len: "length all = Suc n" and stop: "45 < (2::nat) ^ n"
    and before: "\<forall>j<n. (2::nat) ^ j \<le> 45"
    and answers: "\<forall>j\<le>n. getTransaction (sent_server ?sent)
                    (hash \<lparr>send_status = ''PENDING'', hash = ''h1''\<rparr>) (attemptTime 1001 45 j)
                  = Inr (all ! j)"
    by blast
  have "\<not> 6 < n"
  proof
    assume "6 < n"
    with before have "(2::nat) ^ 6 \<le> 45" by blast
    then show False by simp
  qed
  moreover have "\<not> n < 6"
  proof
    assume "n < 6"
    then have "n \<le> 5" by simp
    then have "(2::nat) ^ n \<le> 2 ^ 5" by (intro power_increasing) simp_all
    with stop show False by simp
  qed
  ultimately have n: "n = 6" by simp
  from attempts_by_index[OF len answers]
  have "all = map (\<lambda>j. \<lparr>status = NOT_FOUND, returnValue = None,
                         latestLedger = attemptTime 1001 45 j\<rparr>) [0..<7]"
    unfolding answer n by simp
  also have "[0..<7] = [0, 1, 2, 3, 4, 5, 6::nat]" by (simp add: upt_rec)
  finally have all: "all =
     [\<lparr>status = NOT_FOUND, returnValue = None, latestLedger = 1001\<rparr>,
      \<lparr>status = NOT_FOUND, returnValue = None, latestLedger = 1002\<rparr>,
      \<lparr>status = NOT_FOUND, returnValue = None, latestLedger = 1004\<rparr>,
      \<lparr>status = NOT_FOUND, returnValue = None, latestLedger = 1008\<rparr>,
      \<lparr>status = NOT_FOUND, returnValue = None, latestLedger = 1016\<rparr>,
      \<lparr>status = NOT_FOUND, returnValue = None, latestLedger = 1032\<rparr>,
      \<lparr>status = NOT_FOUND, returnValue = None, latestLedger = 1046\<rparr>]"
    by (simp add: attemptTime_def)
  from sent resp example_send_submit show ?thesis unfolding all by simp
qed

section \<open>The client\<close>

lemma foldl_attach:
  "foldl (\<lambda>this x. this(name x \<mapsto> g (name x))) m xs n
   = (if n \<in> name ` set xs then Some (g n) else m n)"
  by (induction xs arbitrary: m) auto

lemma ContractClient_attaches:
  "f \<in> set (funcs spec) \<Longrightarrow>
   ContractClient spec options' (name f) = Some (clientMethod spec options' (name f))"
  by (simp add: ContractClient_def foldl_attach)

lemma contract_client_ContractClient_attaches:
  "f \<in> set (funcs spec) \<Longrightarrow>
   contract_client_ContractClient spec this_options (name f)
     = Some (contract_client_method spec this_options (name f))"
  by (simp add: contract_client_ContractClient_def foldl_attach)

lemma find_by_key:
  "x \<in> set xs \<Longrightarrow> \<exists>y. find (\<lambda>z. k z = k x) xs = Some y \<and> k y = k x"
  by (induction xs) auto

lemma getFunc_of_funcs:
  "f \<in> set (funcs spec) \<Longrightarrow> \<exists>g. getFunc spec (name f) = Some g \<and> name g = name f"
  unfolding getFunc_def by (rule find_by_key)

text \<open>
  What the two constructors attach. In \<open>contract/client.ts\<close> the member of a function
  without inputs takes the method options alone, and the method options replace the
  client options key by key; in \<open>contract_client/client.ts\<close> the client options
  replace the method options.
\<close>

lemma clientMethod_arity:
  assumes "getFunc spec n = Some f"
  shows "clientMethod spec options' n actuals =
    (if inputs f = [] then assembleTransaction spec options' n Undefined (argument actuals 0)
     else assembleTransaction spec options' n (argument actuals 0) (argument actuals 1))"
  using assms by (simp add: clientMethod_def)

lemma assembleTransaction_precedence:
  assumes "assembleTransaction spec options' n args' (JsObject methodOptions) = Inr opts"
  shows "opts ''errorTypes'' = Some (JsErrorTypes (errorTypesFromSpec spec))
    \<and> opts ''parseResultXdr'' = Some (JsParseResultXdr (funcResToNative spec n))
    \<and> (\<forall>k v. k \<noteq> ''errorTypes'' \<and> k \<noteq> ''parseResultXdr'' \<and> methodOptions k = Some v \<longrightarrow>
          opts k = Some v)
    \<and> (\<forall>k v. k \<noteq> ''errorTypes'' \<and> k \<noteq> ''parseResultXdr'' \<and> methodOptions k = None
             \<and> options' k = Some v \<longrightarrow> opts k = Some v)"
  using assms
  by (auto simp: assembleTransaction_def map_add_def split: if_splits sum.splits)

lemma contract_client_method_precedence:
  assumes "contract_client_method spec this_options n [args', JsObject methodOptions] = Inr opts"
    and "k \<noteq> ''errorTypes''" and "k \<noteq> ''parseResultXdr''"
    and "this_options k = Some v"
  shows "opts k = Some v"
  using assms
  by (auto simp: contract_client_method_def argument_def map_add_def Let_def
      split: sum.splits)

text \<open>
  C8. The spec has a function \<open>inc\<close> with no declared input. Called with the method
  options \<open>{fee: "100"}\<close> as its only argument, the member that the constructor of
  \<open>contract_client/client.ts\<close> attaches takes that object for the args record: the
  options given to \<open>build\<close> have no \<open>fee\<close>. The constructor of \<open>contract/client.ts\<close>
  attaches a member that takes it as the method options.
\<close>

theorem contract_client_zero_input_method_takes_args_first:
  "(case call (contract_client_ContractClient example_spec example_client_options) ''inc''
           [JsObject [''fee'' \<mapsto> JsString ''100'']] of
      Inl e \<Rightarrow> None
    | Inr opts \<Rightarrow> Some (opts ''fee'', opts ''args'')) = Some (None, Some (JsScVals []))
   \<and> (case call (ContractClient example_spec example_client_options) ''inc''
           [JsObject [''fee'' \<mapsto> JsString ''100'']] of
      Inl e \<Rightarrow> None
    | Inr opts \<Rightarrow> Some (opts ''fee'', opts ''args''))
     = Some (Some (JsString ''100''), Some Undefined)"
  by (simp add: call_def contract_client_ContractClient_def contract_client_method_def
        ContractClient_def clientMethod_def assembleTransaction_def getFunc_def
        example_spec_def example_client_options_def argument_def map_add_def)

text \<open>
  C9. The client options carry \<open>fee: "100"\<close> and the call of \<open>hello\<close> gives the method
  options \<open>{fee: "200"}\<close>. The member that the constructor of
  \<open>contract_client/client.ts\<close> attaches spreads the client options after the method
  options, so \<open>build\<close> is given the fee \<open>"100"\<close>; the member of \<open>contract/client.ts\<close>
  spreads them before, and \<open>build\<close> is given \<open>"200"\<close>. Both set \<open>errorTypes\<close> from
  \<open>spec.errorCases()\<close>.
\<close>

theorem contract_client_options_override_method_options:
  "(case call (contract_client_ContractClient example_spec
                 (example_client_options(''fee'' \<mapsto> JsString ''100''))) ''hello''
           [JsObject [''to'' \<mapsto> JsString ''world''], JsObject [''fee'' \<mapsto> JsString ''200'']] of
      Inl e \<Rightarrow> None
    | Inr opts \<Rightarrow> Some (opts ''fee'', opts ''errorTypes''))
     = Some (Some (JsString ''100''), Some (JsErrorTypes [3 \<mapsto> ''insufficient'']))
   \<and> (case call (ContractClient example_spec
                 (example_client_options(''fee'' \<mapsto> JsString ''100''))) ''hello''
           [JsObject [''to'' \<mapsto> JsString ''world''], JsObject [''fee'' \<mapsto> JsString ''200'']] of
      Inl e \<Rightarrow> None
    | Inr opts \<Rightarrow> Some (opts ''fee'', opts ''errorTypes''))
     = Some (Some (JsString ''200''), Some (JsErrorTypes [3 \<mapsto> ''insufficient'']))"
  by (simp add: call_def contract_client_ContractClient_def contract_client_method_def
        ContractClient_def clientMethod_def assembleTransaction_def getFunc_def
        errorTypesFromSpec_def
        example_spec_def example_client_options_def argument_def map_add_def)

end
